theory Spec2Isabelle
  imports Main "HOL-Library.Sublist" "HOL-Library.Word"
begin

unbundle bit_operations_syntax

section \<open>bitscan: the fetch, scan, classify, notify pipeline of \<^verbatim>\<open>bitscan.go\<close>\<close>

text \<open>
  The program is one Go file. Everything it does is an effect on the outside world: the
  file system, the SeaweedFS store, the clamscan engine, the Slack webhook and the log.
  The embedding keeps the source's control flow and makes the outside world explicit:
  \<^item> a \<open>world\<close> answers every call that leaves the program (what \<^verbatim>\<open>os.Mkdir\<close> returned,
    what the store returned, which token \<^verbatim>\<open>uniuri.New()\<close> drew, ...);
  \<^item> a \<open>state\<close> holds the global \<^verbatim>\<open>tmpDir\<close>, the file system entries and the trace of
    every call that left the program, in the order the source makes them;
  \<^item> a Go \<^verbatim>\<open>error\<close> is the text of its \<^verbatim>\<open>Error()\<close>; \<^verbatim>\<open>nil\<close> is \<open>None\<close>;
  \<^item> a Go pointer is \<open>NilPtr\<close> or an address with the value it points to, and
    dereferencing \<open>NilPtr\<close> is the outcome \<open>Panic\<close>.
\<close>

subsection \<open>Data\<close>

type_synonym error = string

datatype 'a pointer = NilPtr | Ptr nat 'a

datatype 'a outcome = Return 'a | Panic string

text \<open>\<^verbatim>\<open>type attachment struct\<close> (lines 43-48).\<close>

record attachment =
  Fallback :: string
  Color :: string
  Title :: string
  Text :: string

text \<open>\<^verbatim>\<open>type object struct\<close> (lines 51-64): \<^verbatim>\<open>uint8\<close> is an 8-bit word, \<^verbatim>\<open>*string\<close> a pointer.\<close>

record object =
  BucketKey :: string
  Bucket :: string
  Key :: string
  Dir :: string
  Type :: "8 word"
  BackendFileID :: "string pointer"
  DestURL :: "string pointer"
  ContentType :: "string pointer"
  ContentLength :: "nat pointer"
  AuthHash :: "string pointer"
  CreatedAt :: "string pointer"
  MD5Hash :: "string pointer"

text \<open>
  \<^verbatim>\<open>clamscan.Result\<close> is declared in the go-clamscan library; the program reads the three
  fields below (lines 269, 280, 283).
\<close>

record clamscan_Result =
  Found :: bool
  Virus :: string
  Error :: "error option"

text \<open>What \<^verbatim>\<open>os.Stat\<close> tells about a path: \<^verbatim>\<open>info.IsDir()\<close>.\<close>

datatype node = Directory | Regular

fun IsDir :: "node \<Rightarrow> bool" where
  "IsDir Directory = True"
| "IsDir Regular = False"

text \<open>The two logrus levels the pipeline logs at, and the values it puts into log fields.\<close>

datatype level = InfoLevel | ErrorLevel

datatype field_value = FString string | FStringPtr "string pointer" | FError error

text \<open>The value handed to \<^verbatim>\<open>json.Marshal\<close> in \<^verbatim>\<open>sendWebhook\<close>: a map with one key.\<close>

type_synonym payload = "(string \<times> attachment list) list"

text \<open>
  Every call that leaves the program, as an event of the trace. \<open>Call_sendWebhook\<close> marks
  the entry of \<^verbatim>\<open>sendWebhook\<close> itself, so that handing a message to the notifier and the
  outbound HTTP request can be told apart. The source calls no removal or deletion
  operation of the file system or of the store, so no event stands for one.
\<close>

datatype event =
    Log level string "(string \<times> field_value) list"
  | Os_Stat string
  | Os_Mkdir string "32 word"
  | Os_Create string
  | File_Chmod string "32 word"
  | Seaweed_Get string string
  | Clamscan_Scan string
  | Call_sendWebhook string string string
  | Http_Post string string payload

record world =
  slackWebhookURL :: string
  os_TempDir :: string
  uniuri :: "nat \<Rightarrow> string"
  stat_err :: "string \<Rightarrow> error option"
  mkdir_err :: "string \<Rightarrow> error option"
  create_err :: "string \<Rightarrow> error option"
  seaweed_reply :: "string \<Rightarrow> string \<Rightarrow> error option"
  clamscan_reply :: "string \<Rightarrow> error + clamscan_Result pointer"
  webhook_reply :: "string \<Rightarrow> payload \<Rightarrow> error option"
  json_Unmarshal :: "string \<Rightarrow> error + object"

record state =
  tmpDir :: string
  drawn :: nat
  fs :: "string \<rightharpoonup> node"
  trace :: "event list"

subsection \<open>Constants (lines 24-40)\<close>

definition folderFileMode :: "32 word" where
  "folderFileMode = push_bit 31 1 OR 0x1F8"

definition objectFileMode :: "32 word" where
  "objectFileMode = 0x1B0"

definition applicationJSON :: string where
  "applicationJSON = ''application/json''"

definition contentType :: string where
  "contentType = ''Content-Type''"

subsection \<open>Library calls\<close>

definition emit :: "event \<Rightarrow> state \<Rightarrow> state" where
  "emit e s = s\<lparr>trace := trace s @ [e]\<rparr>"

text \<open>\<^verbatim>\<open>uniuri.New()\<close>: the next random token.\<close>

definition uniuri_New :: "world \<Rightarrow> state \<Rightarrow> string \<times> state" where
  "uniuri_New w s = (uniuri w (drawn s), s\<lparr>drawn := Suc (drawn s)\<rparr>)"

text \<open>\<^verbatim>\<open>os.Stat\<close>: fails on a missing path, or for a reason of the world's (permissions).\<close>

definition os_Stat :: "world \<Rightarrow> string \<Rightarrow> state \<Rightarrow> (error + node) \<times> state" where
  "os_Stat w p s =
     ((case stat_err w p of
         Some e \<Rightarrow> Inl e
       | None \<Rightarrow> (case fs s p of
                    None \<Rightarrow> Inl ''no such file or directory''
                  | Some n \<Rightarrow> Inr n)),
      emit (Os_Stat p) s)"

text \<open>\<^verbatim>\<open>os.Mkdir\<close>: fails on an existing path, or for a reason of the world's.\<close>

definition os_Mkdir :: "world \<Rightarrow> string \<Rightarrow> 32 word \<Rightarrow> state \<Rightarrow> error option \<times> state" where
  "os_Mkdir w p m s =
     (let s' = emit (Os_Mkdir p m) s
      in case mkdir_err w p of
           Some e \<Rightarrow> (Some e, s')
         | None \<Rightarrow> (case fs s p of
                      Some n \<Rightarrow> (Some ''file exists'', s')
                    | None \<Rightarrow> (None, s'\<lparr>fs := (fs s)(p \<mapsto> Directory)\<rparr>)))"

text \<open>
  \<^verbatim>\<open>os.Create\<close>: creates or truncates a regular file; fails on a directory, or for a
  reason of the world's.
\<close>

definition os_Create :: "world \<Rightarrow> string \<Rightarrow> state \<Rightarrow> error option \<times> state" where
  "os_Create w p s =
     (let s' = emit (Os_Create p) s
      in case create_err w p of
           Some e \<Rightarrow> (Some e, s')
         | None \<Rightarrow> (case fs s p of
                      Some Directory \<Rightarrow> (Some ''is a directory'', s')
                    | _ \<Rightarrow> (None, s'\<lparr>fs := (fs s)(p \<mapsto> Regular)\<rparr>)))"

text \<open>\<^verbatim>\<open>file.Chmod\<close>: the source drops its result; the model keeps no permission bits.\<close>

definition file_Chmod :: "string \<Rightarrow> 32 word \<Rightarrow> state \<Rightarrow> state" where
  "file_Chmod p m s = emit (File_Chmod p m) s"

definition seaweed_Get :: "world \<Rightarrow> string \<Rightarrow> string \<Rightarrow> state \<Rightarrow> error option \<times> state" where
  "seaweed_Get w fid query s = (seaweed_reply w fid query, emit (Seaweed_Get fid query) s)"

text \<open>
  \<^verbatim>\<open>clamscan.Scan\<close> followed by the receive \<^verbatim>\<open><-res\<close>: an error of the call, or the
  \<^verbatim>\<open>*clamscan.Result\<close> received.
\<close>

definition clamscan_Scan ::
  "world \<Rightarrow> string \<Rightarrow> state \<Rightarrow> (error + clamscan_Result pointer) \<times> state" where
  "clamscan_Scan w p s = (clamscan_reply w p, emit (Clamscan_Scan p) s)"

definition httpClient_Post ::
  "world \<Rightarrow> string \<Rightarrow> string \<Rightarrow> payload \<Rightarrow> state \<Rightarrow> error option \<times> state" where
  "httpClient_Post w url ctype d s = (webhook_reply w url d, emit (Http_Post url ctype d) s)"

text \<open>
  \<^verbatim>\<open>path.Ext\<close>: the suffix from the last dot of the last slash-separated element, empty
  without a dot. The library walks the string from its end; \<open>ext_scan\<close> walks the
  reversed string and collects what it has passed.
\<close>

fun ext_scan :: "string \<Rightarrow> string \<Rightarrow> string" where
  "ext_scan [] suf = []"
| "ext_scan (c # r) suf =
     (if c = CHR ''/'' then []
      else if c = CHR ''.'' then c # suf
      else ext_scan r (c # suf))"

definition path_Ext :: "string \<Rightarrow> string" where
  "path_Ext p = ext_scan (rev p) []"

text \<open>
  \<^verbatim>\<open>fmt\<close> and a pointer. The verb \<^verbatim>\<open>%s\<close> is not defined for a pointer to a string: \<^verbatim>\<open>fmt\<close>
  writes its bad-verb form \<^verbatim>\<open>%!s(*string=0xc00001c030)\<close>, the address in base 16, or
  \<^verbatim>\<open>%!s(*string=<nil>)\<close> for a nil pointer. The text pointed to is not written.
\<close>

definition hexdigit :: "nat \<Rightarrow> char" where
  "hexdigit d = ''0123456789abcdef'' ! d"

fun hex :: "nat \<Rightarrow> string" where
  "hex n = (if n < 16 then [hexdigit n] else hex (n div 16) @ [hexdigit (n mod 16)])"

declare hex.simps [simp del]

definition sprintf_s_ptr :: "string pointer \<Rightarrow> string" where
  "sprintf_s_ptr p =
     ''%!s(*string='' @ (case p of NilPtr \<Rightarrow> ''<nil>'' | Ptr a v \<Rightarrow> ''0x'' @ hex a) @ '')''"

subsection \<open>\<^verbatim>\<open>getTempFilename\<close> (lines 214-231)\<close>

text \<open>The assignment \<^verbatim>\<open>tmpDir = os.TempDir() + "/bitscan_" + uniuri.New()\<close> (lines 216, 222).\<close>

definition fresh_dir :: "world \<Rightarrow> state \<Rightarrow> state" where
  "fresh_dir w s =
     (case uniuri_New w s of
        (u, s') \<Rightarrow> s'\<lparr>tmpDir := os_TempDir w @ ''/bitscan_'' @ u\<rparr>)"

text \<open>Lines 215-217: the directory gets a name on first use.\<close>

definition name_dir :: "world \<Rightarrow> state \<Rightarrow> state" where
  "name_dir w s = (if tmpDir s = [] then fresh_dir w s else s)"

text \<open>Line 230: the path, in the directory named when the line is reached.\<close>

definition new_path :: "world \<Rightarrow> string \<Rightarrow> state \<Rightarrow> (error + string) \<times> state" where
  "new_path w ext s =
     (case uniuri_New w s of
        (u, s') \<Rightarrow> (Inr (tmpDir s' @ ''/'' @ u @ ext), s'))"

text \<open>
  Lines 219-228: the directory named is checked, and replaced by a new one when the check
  fails.
\<close>

definition getTempFilename :: "world \<Rightarrow> string \<Rightarrow> state \<Rightarrow> (error + string) \<times> state" where
  "getTempFilename w ext s0 =
     (let s1 = name_dir w s0
      in case os_Stat w (tmpDir s1) s1 of
           (info, s2) \<Rightarrow>
             if (case info of Inl err \<Rightarrow> True | Inr n \<Rightarrow> \<not> IsDir n) then
               (let s3 = fresh_dir w s2
                in case os_Mkdir w (tmpDir s3) folderFileMode s3 of
                     (Some err, s4) \<Rightarrow>
                       (Inl err,
                        emit (Log ErrorLevel ''failed to generate temporary directory''
                                [(''err'', FError err)]) s4)
                   | (None, s4) \<Rightarrow> new_path w ext s4)
             else new_path w ext s2)"

subsection \<open>\<^verbatim>\<open>sendWebhook\<close> (lines 234-255)\<close>

text \<open>
  \<^verbatim>\<open>json.Marshal\<close> of a map from a string to a slice of structs with string fields has no
  failing case, so its error branch (lines 249-251) has no counterpart; the request body
  is kept as the value marshalled.
\<close>

definition webhook_body :: "string \<Rightarrow> string \<Rightarrow> string \<Rightarrow> payload" where
  "webhook_body title text color =
     [(''attachments'',
       [\<lparr>Fallback = ''**'' @ title @ ''**'' @ [CHR 0x0A] @ text,
         Color = color, Title = title, Text = text\<rparr>])]"

definition sendWebhook ::
  "world \<Rightarrow> string \<Rightarrow> string \<Rightarrow> string \<Rightarrow> state \<Rightarrow> error option \<times> state" where
  "sendWebhook w title text color s =
     (let s0 = emit (Call_sendWebhook title text color) s
      in if slackWebhookURL w = [] then (None, s0)
         else httpClient_Post w (slackWebhookURL w) applicationJSON
                (webhook_body title text color) s0)"

subsection \<open>\<^verbatim>\<open>scan\<close> (lines 300-337)\<close>

definition nil_dereference :: string where
  "nil_dereference = ''runtime error: invalid memory address or nil pointer dereference''"

definition scan ::
  "world \<Rightarrow> object \<Rightarrow> state \<Rightarrow> (error + clamscan_Result pointer) outcome \<times> state" where
  "scan w obj s =
     (case getTempFilename w (path_Ext (Key obj)) s of
        (Inl err, s1) \<Rightarrow> (Return (Inl err), s1)
      | (Inr path, s1) \<Rightarrow>
          (case os_Create w path s1 of
             (Some err, s2) \<Rightarrow>
               (Return (Inl (''failed to create temporary file: '' @ err)),
                emit (Log ErrorLevel ''failed to create temporary file''
                        [(''err'', FError err), (''path'', FString path)]) s2)
           | (None, s2) \<Rightarrow>
               (let s3 = file_Chmod path objectFileMode s2
                in case BackendFileID obj of
                     NilPtr \<Rightarrow> (Panic nil_dereference, s3)
                   | Ptr a fid \<Rightarrow>
                       (case seaweed_Get w fid [] s3 of
                          (Some err, s4) \<Rightarrow>
                            (Return (Inl (''failed to get file from SeaweedFS backend: '' @ err)),
                             emit (Log ErrorLevel ''failed to get file from SeaweedFS backend''
                                     [(''err'', FError err), (''path'', FString path)]) s4)
                        | (None, s4) \<Rightarrow>
                            (case clamscan_Scan w path s4 of
                               (Inl err, s5) \<Rightarrow>
                                 (Return (Inl (''failed to scan file: '' @ err)),
                                  emit (Log ErrorLevel ''failed to scan file''
                                          [(''err'', FError err), (''path'', FString path)]) s5)
                             | (Inr res, s5) \<Rightarrow> (Return (Inr res), s5))))))"

subsection \<open>\<^verbatim>\<open>processScan\<close> (lines 257-298)\<close>

text \<open>
  The three branches that notify end the same way: the result of \<^verbatim>\<open>sendWebhook\<close> is
  logged when it is an error, and returned.
\<close>

definition invoked :: "error option \<times> state \<Rightarrow> error option outcome \<times> state" where
  "invoked r =
     (case r of
        (Some err, s) \<Rightarrow>
          (Return (Some err),
           emit (Log ErrorLevel ''failed to invoke webhook'' [(''err'', FError err)]) s)
      | (None, s) \<Rightarrow> (Return None, s))"

definition error_title :: "object \<Rightarrow> string" where
  \<open>error_title obj = ''Error scanning `'' @ BucketKey obj @ ''`''\<close>

definition error_text :: "error \<Rightarrow> string" where
  \<open>error_text err = ''```'' @ [CHR 0x0A] @ err @ ''```''\<close>

definition positive_title :: "object \<Rightarrow> string" where
  \<open>positive_title obj = ''Positive file found: `'' @ BucketKey obj @ ''`''\<close>

definition positive_text :: "object \<Rightarrow> clamscan_Result \<Rightarrow> string" where
  \<open>positive_text obj res =
     ''`'' @ BucketKey obj @ ''` (`'' @ sprintf_s_ptr (MD5Hash obj)
     @ ''`) returned positive during scan with virus `'' @ Virus res @ ''`.''
     @ [CHR 0x0A, CHR 0x0A] @ ''It has not been deleted from storage backend.''\<close>

definition processScan :: "world \<Rightarrow> object \<Rightarrow> state \<Rightarrow> error option outcome \<times> state" where
  "processScan w obj s =
     (case scan w obj s of
        (Panic msg, s1) \<Rightarrow> (Panic msg, s1)
      | (Return (Inl err), s1) \<Rightarrow>
          invoked (sendWebhook w (error_title obj) (error_text err) ''danger'' s1)
      | (Return (Inr NilPtr), s1) \<Rightarrow> (Panic nil_dereference, s1)
      | (Return (Inr (Ptr a res)), s1) \<Rightarrow>
          (case Error res of
             Some err \<Rightarrow>
               invoked (sendWebhook w (error_title obj) (error_text err) ''danger'' s1)
           | None \<Rightarrow>
               if Found res then
                 invoked (sendWebhook w (positive_title obj) (positive_text obj res) ''#439FE0''
                   (emit (Log InfoLevel ''found virus in a file''
                            [(''bucket_key'', FString (BucketKey obj)),
                             (''virus'', FString (Virus res)),
                             (''md5_hash'', FStringPtr (MD5Hash obj))]) s1))
               else (Return None, s1)))"

subsection \<open>The handler of \<^verbatim>\<open>POST /v1/scanObject.async\<close> (lines 165-195)\<close>

record request =
  Header :: "string \<rightharpoonup> string"
  PostBody :: string

record response =
  StatusCode :: nat
  RespContentType :: string
  RespBody :: string

text \<open>\<^verbatim>\<open>ctx.Request.Header.Peek\<close>: the header's value, empty when the header is absent.\<close>

definition Peek :: "request \<Rightarrow> string \<Rightarrow> string" where
  "Peek req k = (case Header req k of None \<Rightarrow> [] | Some v \<Rightarrow> v)"

text \<open>
  The handler returns the response and the call it has started with \<^verbatim>\<open>go\<close>, if any:
  \<open>Some data\<close> stands for \<^verbatim>\<open>go processScan(data)\<close>.
\<close>

definition scanObject_async :: "world \<Rightarrow> request \<Rightarrow> response \<times> object option" where
  \<open>scanObject_async w req =
     (let ctype = ''application/json; charset=utf-8''
      in if \<not> prefix applicationJSON (Peek req contentType) then
           (\<lparr>StatusCode = 400, RespContentType = ctype,
             RespBody = ''{"code":400,"message":"Bad Request (Content-Type not JSON)"}''\<rparr>,
            None)
         else
           (case json_Unmarshal w (PostBody req) of
              Inl err \<Rightarrow>
                (\<lparr>StatusCode = 400, RespContentType = ctype,
                  RespBody = ''{"code":400,"message":"Bad Request (could not parse JSON body)"}''\<rparr>,
                 None)
            | Inr data \<Rightarrow>
                if Type data \<noteq> 0 then
                  (\<lparr>StatusCode = 400, RespContentType = ctype,
                    RespBody = ''{"code":400,"message":"Bad Request (invalid object type)"}''\<rparr>,
                   None)
                else
                  (\<lparr>StatusCode = 202, RespContentType = ctype,
                    RespBody = ''{"code":201,"message":"Accepted (processing asynchronously)"}''\<rparr>,
                   Some data)))\<close>

text \<open>A request served to the end: the response, and the run of the task it started.\<close>

definition serve ::
  "world \<Rightarrow> request \<Rightarrow> state \<Rightarrow> response \<times> (error option outcome \<times> state) option" where
  "serve w req s =
     (case scanObject_async w req of
        (resp, None) \<Rightarrow> (resp, None)
      | (resp, Some data) \<Rightarrow> (resp, Some (processScan w data s)))"

subsection \<open>Reading a trace\<close>

text \<open>The events of a run: what the trace has gained between two states.\<close>

definition since :: "state \<Rightarrow> state \<Rightarrow> event list" where
  "since s s' = drop (length (trace s)) (trace s')"

text \<open>Messages handed to the notifier, as (title, text, color).\<close>

definition notifications :: "event list \<Rightarrow> (string \<times> string \<times> string) list" where
  "notifications evs = [(t, x, c). Call_sendWebhook t x c \<leftarrow> evs]"

text \<open>Outbound HTTP requests, as (URL, content type, body).\<close>

definition posts :: "event list \<Rightarrow> (string \<times> string \<times> payload) list" where
  "posts evs = [(u, c, d). Http_Post u c d \<leftarrow> evs]"

text \<open>Invocations of the scan engine, calls to the store, files created, log lines.\<close>

definition engine_calls :: "event list \<Rightarrow> string list" where
  "engine_calls evs = [p. Clamscan_Scan p \<leftarrow> evs]"

definition store_calls :: "event list \<Rightarrow> (string \<times> string) list" where
  "store_calls evs = [(f, q). Seaweed_Get f q \<leftarrow> evs]"

definition creations :: "event list \<Rightarrow> string list" where
  "creations evs = [p. Os_Create p \<leftarrow> evs]"

definition mkdirs :: "event list \<Rightarrow> (string \<times> 32 word) list" where
  "mkdirs evs = [(p, m). Os_Mkdir p m \<leftarrow> evs]"

definition logs :: "event list \<Rightarrow> (level \<times> string \<times> (string \<times> field_value) list) list" where
  "logs evs = [(l, m, f). Log l m f \<leftarrow> evs]"

subsection \<open>Concrete runs\<close>

text \<open>
  A world in which every call succeeds, the webhook is configured and the engine finds
  the EICAR test file; four request bodies and what \<^verbatim>\<open>json.Unmarshal\<close> makes of them
  (a field absent from the body keeps its zero value, \<^verbatim>\<open>nil\<close> for a pointer).
\<close>

definition eicar_object :: object where
  "eicar_object =
     \<lparr>BucketKey = ''bkt/key1'', Bucket = ''bkt'', Key = ''key1.bin'', Dir = [], Type = 0,
      BackendFileID = Ptr 0xc00001c020 ''3,01637037d6'', DestURL = NilPtr,
      ContentType = NilPtr, ContentLength = NilPtr, AuthHash = NilPtr, CreatedAt = NilPtr,
      MD5Hash = Ptr 0xc00001c030 ''44d88612fea8a8f36de82e1278abb02f''\<rparr>"

definition eicar_body :: string where
  \<open>eicar_body =
     ''{"bucket_key":"bkt/key1","bucket":"bkt","key":"key1.bin","type":0,''
     @ ''"backend_file_id":"3,01637037d6","md5_hash":"44d88612fea8a8f36de82e1278abb02f"}''\<close>

definition zero_object :: object where
  "zero_object =
     \<lparr>BucketKey = [], Bucket = [], Key = [], Dir = [], Type = 0,
      BackendFileID = NilPtr, DestURL = NilPtr, ContentType = NilPtr,
      ContentLength = NilPtr, AuthHash = NilPtr, CreatedAt = NilPtr, MD5Hash = NilPtr\<rparr>"

definition no_id_body :: string where
  \<open>no_id_body = ''{"type":0}''\<close>

definition type1_body :: string where
  \<open>type1_body = ''{"type":1}''\<close>

definition truncated_body :: string where
  \<open>truncated_body = ''{"type":''\<close>

definition example_Unmarshal :: "string \<Rightarrow> error + object" where
  "example_Unmarshal b =
     (if b = eicar_body then Inr eicar_object
      else if b = no_id_body then Inr zero_object
      else if b = type1_body then Inr (zero_object\<lparr>Type := 1\<rparr>)
      else Inl ''unexpected end of JSON input'')"

definition eicar_result :: clamscan_Result where
  "eicar_result = \<lparr>Found = True, Virus = ''Eicar-Test-Signature'', Error = None\<rparr>"

definition example_world :: world where
  "example_world =
     \<lparr>slackWebhookURL = ''https://hooks.example/services/T0'',
      os_TempDir = ''/tmp'',
      uniuri = (\<lambda>n. if n = 0 then ''aaaaaaaaaaaaaaaa''
                    else if n = 1 then ''bbbbbbbbbbbbbbbb'' else ''cccccccccccccccc''),
      stat_err = (\<lambda>p. None),
      mkdir_err = (\<lambda>p. None),
      create_err = (\<lambda>p. None),
      seaweed_reply = (\<lambda>fid query. None),
      clamscan_reply = (\<lambda>p. Inr (Ptr 0xc00009a000 eicar_result)),
      webhook_reply = (\<lambda>url d. None),
      json_Unmarshal = example_Unmarshal\<rparr>"

definition initial_state :: state where
  "initial_state = \<lparr>tmpDir = [], drawn = 0, fs = [''/tmp'' \<mapsto> Directory], trace = []\<rparr>"

text \<open>A state in which the scratch directory has a name and exists.\<close>

definition warm_state :: state where
  "warm_state =
     \<lparr>tmpDir = ''/tmp/bitscan_bbbbbbbbbbbbbbbb'', drawn = 3,
      fs = [''/tmp'' \<mapsto> Directory, ''/tmp/bitscan_bbbbbbbbbbbbbbbb'' \<mapsto> Directory],
      trace = []\<rparr>"

definition json_request :: "string \<Rightarrow> request" where
  "json_request b = \<lparr>Header = [''Content-Type'' \<mapsto> ''application/json''], PostBody = b\<rparr>"

definition plain_request :: request where
  "plain_request = \<lparr>Header = [''Content-Type'' \<mapsto> ''text/plain''], PostBody = eicar_body\<rparr>"

text \<open>The same world with one call failing, or the webhook not configured.\<close>

definition fetch_failing_world :: world where
  "fetch_failing_world = example_world\<lparr>seaweed_reply := (\<lambda>fid query. Some ''404 Not Found'')\<rparr>"

definition clean_result :: clamscan_Result where
  "clean_result = \<lparr>Found = False, Virus = [], Error = None\<rparr>"

definition clean_world :: world where
  "clean_world = example_world\<lparr>clamscan_reply := (\<lambda>p. Inr (Ptr 0xc00009a000 clean_result))\<rparr>"

definition webhook_down_world :: world where
  "webhook_down_world = example_world\<lparr>webhook_reply := (\<lambda>url d. Some ''connection refused'')\<rparr>"

definition silent_world :: world where
  "silent_world = example_world\<lparr>slackWebhookURL := []\<rparr>"

definition mkdir_failing_world :: world where
  "mkdir_failing_world = example_world\<lparr>mkdir_err := (\<lambda>p. Some ''permission denied'')\<rparr>"

section \<open>Properties\<close>

subsection \<open>The ways through the allocator, \<open>scan\<close> and \<open>processScan\<close>\<close>

lemmas lib_defs = emit_def uniuri_New_def os_Stat_def os_Mkdir_def os_Create_def file_Chmod_def
  seaweed_Get_def clamscan_Scan_def httpClient_Post_def fresh_dir_def new_path_def
lemmas fixture_defs = example_world_def initial_state_def eicar_object_def eicar_result_def
lemmas obs_defs = notifications_def posts_def engine_calls_def store_calls_def creations_def mkdirs_def logs_def

lemma os_Create_cases:
  obtains (failed) e where "os_Create w p s = (Some e, emit (Os_Create p) s)"
      and "create_err w p = Some e \<or> fs s p = Some Directory"
  | (created) "os_Create w p s = (None, (emit (Os_Create p) s)\<lparr>fs := (fs s)(p \<mapsto> Regular)\<rparr>)"
      and "create_err w p = None" and "fs s p \<noteq> Some Directory"
proof (cases "create_err w p")
  case (Some e)
  then have "os_Create w p s = (Some e, emit (Os_Create p) s)"
    by (simp add: os_Create_def)
  with Some show ?thesis by (simp add: failed)
next
  case None
  show ?thesis
  proof (cases "fs s p = Some Directory")
    case True
    with None have "os_Create w p s = (Some ''is a directory'', emit (Os_Create p) s)"
      by (simp add: os_Create_def)
    with True show ?thesis by (simp add: failed)
  next
    case False
    with None
    have "os_Create w p s = (None, (emit (Os_Create p) s)\<lparr>fs := (fs s)(p \<mapsto> Regular)\<rparr>)"
      by (auto simp: os_Create_def Let_def split: option.splits node.splits)
    with None False show ?thesis by (simp add: created)
  qed
qed

text \<open>The six ways through \<open>scan\<close>, from the state \<open>s1\<close> the allocator leaves.\<close>

lemma scan_cases:
  assumes "getTempFilename w (path_Ext (Key obj)) s = (g, s1)"
  obtains
    (no_path) e where "g = Inl e" and "scan w obj s = (Return (Inl e), s1)"
  | (no_file) p e where "g = Inr p" and "create_err w p = Some e \<or> fs s1 p = Some Directory"
      and "scan w obj s =
             (Return (Inl (''failed to create temporary file: '' @ e)),
              s1\<lparr>trace := trace s1 @
                 [Os_Create p,
                  Log ErrorLevel ''failed to create temporary file''
                    [(''err'', FError e), (''path'', FString p)]]\<rparr>)"
  | (nil_id) p where "g = Inr p" and "create_err w p = None" and "fs s1 p \<noteq> Some Directory"
      and "BackendFileID obj = NilPtr"
      and "scan w obj s =
             (Panic nil_dereference,
              s1\<lparr>fs := (fs s1)(p \<mapsto> Regular),
                 trace := trace s1 @ [Os_Create p, File_Chmod p objectFileMode]\<rparr>)"
  | (no_fetch) p a fid e where "g = Inr p" and "create_err w p = None"
      and "fs s1 p \<noteq> Some Directory"
      and "BackendFileID obj = Ptr a fid" and "seaweed_reply w fid [] = Some e"
      and "scan w obj s =
             (Return (Inl (''failed to get file from SeaweedFS backend: '' @ e)),
              s1\<lparr>fs := (fs s1)(p \<mapsto> Regular),
                 trace := trace s1 @
                   [Os_Create p, File_Chmod p objectFileMode, Seaweed_Get fid [],
                    Log ErrorLevel ''failed to get file from SeaweedFS backend''
                      [(''err'', FError e), (''path'', FString p)]]\<rparr>)"
  | (no_scan) p a fid e where "g = Inr p" and "create_err w p = None"
      and "fs s1 p \<noteq> Some Directory"
      and "BackendFileID obj = Ptr a fid" and "seaweed_reply w fid [] = None"
      and "clamscan_reply w p = Inl e"
      and "scan w obj s =
             (Return (Inl (''failed to scan file: '' @ e)),
              s1\<lparr>fs := (fs s1)(p \<mapsto> Regular),
                 trace := trace s1 @
                   [Os_Create p, File_Chmod p objectFileMode, Seaweed_Get fid [],
                    Clamscan_Scan p,
                    Log ErrorLevel ''failed to scan file''
                      [(''err'', FError e), (''path'', FString p)]]\<rparr>)"
  | (scanned) p a fid res where "g = Inr p" and "create_err w p = None"
      and "fs s1 p \<noteq> Some Directory"
      and "BackendFileID obj = Ptr a fid" and "seaweed_reply w fid [] = None"
      and "clamscan_reply w p = Inr res"
      and "scan w obj s =
             (Return (Inr res),
              s1\<lparr>fs := (fs s1)(p \<mapsto> Regular),
                 trace := trace s1 @
                   [Os_Create p, File_Chmod p objectFileMode, Seaweed_Get fid [],
                    Clamscan_Scan p]\<rparr>)"
proof (cases g)
  case (Inl e)
  with assms have "scan w obj s = (Return (Inl e), s1)"
    by (simp add: scan_def)
  with Inl show ?thesis by (rule no_path)
next
  case (Inr p)
  show ?thesis
  proof (cases rule: os_Create_cases [of w p s1])
    case (failed e)
    with assms Inr have "scan w obj s =
             (Return (Inl (''failed to create temporary file: '' @ e)),
              s1\<lparr>trace := trace s1 @
                 [Os_Create p,
                  Log ErrorLevel ''failed to create temporary file''
                    [(''err'', FError e), (''path'', FString p)]]\<rparr>)"
      by (simp add: scan_def emit_def)
    with Inr failed(2) show ?thesis by (rule no_file)
  next
    case created
    show ?thesis
    proof (cases "BackendFileID obj")
      case NilPtr
      with assms Inr created(1) have "scan w obj s =
             (Panic nil_dereference,
              s1\<lparr>fs := (fs s1)(p \<mapsto> Regular),
                 trace := trace s1 @ [Os_Create p, File_Chmod p objectFileMode]\<rparr>)"
        by (simp add: scan_def emit_def file_Chmod_def)
      with Inr created(2,3) NilPtr show ?thesis by (rule nil_id)
    next
      case (Ptr a fid)
      show ?thesis
      proof (cases "seaweed_reply w fid []")
        case (Some e)
        with assms Inr created(1) Ptr have "scan w obj s =
             (Return (Inl (''failed to get file from SeaweedFS backend: '' @ e)),
              s1\<lparr>fs := (fs s1)(p \<mapsto> Regular),
                 trace := trace s1 @
                   [Os_Create p, File_Chmod p objectFileMode, Seaweed_Get fid [],
                    Log ErrorLevel ''failed to get file from SeaweedFS backend''
                      [(''err'', FError e), (''path'', FString p)]]\<rparr>)"
          by (simp add: scan_def emit_def file_Chmod_def seaweed_Get_def)
        with Inr created(2,3) Ptr Some show ?thesis by (rule no_fetch)
      next
        case None
        show ?thesis
        proof (cases "clamscan_reply w p")
          case (Inl e)
          with assms Inr created(1) Ptr None have "scan w obj s =
             (Return (Inl (''failed to scan file: '' @ e)),
              s1\<lparr>fs := (fs s1)(p \<mapsto> Regular),
                 trace := trace s1 @
                   [Os_Create p, File_Chmod p objectFileMode, Seaweed_Get fid [],
                    Clamscan_Scan p,
                    Log ErrorLevel ''failed to scan file''
                      [(''err'', FError e), (''path'', FString p)]]\<rparr>)"
            by (simp add: scan_def emit_def file_Chmod_def seaweed_Get_def clamscan_Scan_def)
          with Inr created(2,3) Ptr None Inl show ?thesis by (rule no_scan)
        next
          case (Inr res)
          with assms \<open>g = Inr p\<close> created(1) Ptr None have "scan w obj s =
             (Return (Inr res),
              s1\<lparr>fs := (fs s1)(p \<mapsto> Regular),
                 trace := trace s1 @
                   [Os_Create p, File_Chmod p objectFileMode, Seaweed_Get fid [],
                    Clamscan_Scan p]\<rparr>)"
            by (simp add: scan_def emit_def file_Chmod_def seaweed_Get_def clamscan_Scan_def)
          with \<open>g = Inr p\<close> created(2,3) Ptr None Inr show ?thesis by (rule scanned)
        qed
      qed
    qed
  qed
qed



lemma name_dir_trace: "trace (name_dir w s) = trace s"
  by (simp add: name_dir_def fresh_dir_def uniuri_New_def)

lemma name_dir_fs: "fs (name_dir w s) = fs s"
  by (simp add: name_dir_def fresh_dir_def uniuri_New_def)

lemma name_dir_drawn:
  "drawn (name_dir w s) = (if tmpDir s = [] then Suc (drawn s) else drawn s)"
  by (simp add: name_dir_def fresh_dir_def uniuri_New_def)

lemma name_dir_tmpDir:
  "tmpDir (name_dir w s) =
     (if tmpDir s = [] then os_TempDir w @ ''/bitscan_'' @ uniuri w (drawn s) else tmpDir s)"
  by (cases "tmpDir s = []") (simp_all add: name_dir_def fresh_dir_def uniuri_New_def)

lemma os_Stat_result:
  "os_Stat w d s1 = (info, s2) \<Longrightarrow>
     s2 = s1\<lparr>trace := trace s1 @ [Os_Stat d]\<rparr> \<and>
     ((case info of Inl err \<Rightarrow> True | Inr n \<Rightarrow> \<not> IsDir n)
        \<longleftrightarrow> (stat_err w d \<noteq> None \<or> fs s1 d \<noteq> Some Directory))"
  by (cases "stat_err w d"; cases "fs s1 d"; cases "the (fs s1 d)")
     (auto simp: os_Stat_def emit_def)

lemma getTempFilename_cases:
  fixes w s ext
  defines "s1 \<equiv> name_dir w s"
  defines "d \<equiv> tmpDir s1"
  defines "d' \<equiv> os_TempDir w @ ''/bitscan_'' @ uniuri w (drawn s1)"
  obtains
    (kept) "stat_err w d = None" and "fs s d = Some Directory"
      and "getTempFilename w ext s =
             (Inr (d @ ''/'' @ uniuri w (drawn s1) @ ext),
              s1\<lparr>drawn := Suc (drawn s1), trace := trace s @ [Os_Stat d]\<rparr>)"
  | (remade) "stat_err w d \<noteq> None \<or> fs s d \<noteq> Some Directory"
      and "mkdir_err w d' = None" and "fs s d' = None"
      and "getTempFilename w ext s =
             (Inr (d' @ ''/'' @ uniuri w (Suc (drawn s1)) @ ext),
              s1\<lparr>tmpDir := d', drawn := Suc (Suc (drawn s1)),
                 fs := (fs s)(d' \<mapsto> Directory),
                 trace := trace s @ [Os_Stat d, Os_Mkdir d' folderFileMode]\<rparr>)"
  | (not_made) e where "stat_err w d \<noteq> None \<or> fs s d \<noteq> Some Directory"
      and "mkdir_err w d' \<noteq> None \<or> fs s d' \<noteq> None"
      and "getTempFilename w ext s =
             (Inl e,
              s1\<lparr>tmpDir := d', drawn := Suc (drawn s1),
                 trace := trace s @
                   [Os_Stat d, Os_Mkdir d' folderFileMode,
                    Log ErrorLevel ''failed to generate temporary directory''
                      [(''err'', FError e)]]\<rparr>)"
proof -
  obtain info s2 where stat: "os_Stat w d s1 = (info, s2)"
    by (cases "os_Stat w d s1")
  note st = os_Stat_result [OF stat]
  have fs1: "fs s1 = fs s" and tr1: "trace s1 = trace s"
    by (simp_all add: s1_def name_dir_fs name_dir_trace)
  show ?thesis
  proof (cases "stat_err w d = None \<and> fs s d = Some Directory")
    case True
    with st fs1 have ok: "\<not> (case info of Inl err \<Rightarrow> True | Inr n \<Rightarrow> \<not> IsDir n)"
      by simp
    have "getTempFilename w ext s =
             (Inr (d @ ''/'' @ uniuri w (drawn s1) @ ext),
              s1\<lparr>drawn := Suc (drawn s1), trace := trace s @ [Os_Stat d]\<rparr>)"
      unfolding getTempFilename_def Let_def s1_def [symmetric] d_def [symmetric] stat
      using ok st by (simp add: new_path_def uniuri_New_def tr1 d_def)
    with True show ?thesis by (simp add: kept)
  next
    case False
    with st fs1 have bad: "(case info of Inl err \<Rightarrow> True | Inr n \<Rightarrow> \<not> IsDir n)"
      by simp
    have s3: "fresh_dir w s2 = s1\<lparr>tmpDir := d', drawn := Suc (drawn s1),
                 trace := trace s @ [Os_Stat d]\<rparr>"
      using st by (simp add: fresh_dir_def uniuri_New_def d'_def tr1)
    show ?thesis
    proof (cases "mkdir_err w d' = None \<and> fs s d' = None")
      case True
      have "getTempFilename w ext s =
             (Inr (d' @ ''/'' @ uniuri w (Suc (drawn s1)) @ ext),
              s1\<lparr>tmpDir := d', drawn := Suc (Suc (drawn s1)),
                 fs := (fs s)(d' \<mapsto> Directory),
                 trace := trace s @ [Os_Stat d, Os_Mkdir d' folderFileMode]\<rparr>)"
        unfolding getTempFilename_def Let_def s1_def [symmetric] d_def [symmetric] stat
        using bad True by (simp add: s3 os_Mkdir_def emit_def new_path_def uniuri_New_def fs1)
      with False True show ?thesis by (simp add: remade)
    next
      case nm: False
      then obtain e where e: "fst (os_Mkdir w d' folderFileMode (fresh_dir w s2)) = Some e"
        by (cases "mkdir_err w d'"; cases "fs s d'")
           (auto simp: os_Mkdir_def s3 fs1 Let_def)
      have "getTempFilename w ext s =
             (Inl e,
              s1\<lparr>tmpDir := d', drawn := Suc (drawn s1),
                 trace := trace s @
                   [Os_Stat d, Os_Mkdir d' folderFileMode,
                    Log ErrorLevel ''failed to generate temporary directory''
                      [(''err'', FError e)]]\<rparr>)"
        unfolding getTempFilename_def Let_def s1_def [symmetric] d_def [symmetric] stat
        using bad e nm
        by (cases "mkdir_err w d'"; cases "fs s d'")
           (auto simp: s3 os_Mkdir_def emit_def fs1 Let_def)
      with False nm show ?thesis by (simp add: not_made)
    qed
  qed
qed

lemma invoked_sendWebhook:
  "invoked (sendWebhook w t x c s) =
     (Return (if slackWebhookURL w = [] then None
              else webhook_reply w (slackWebhookURL w) (webhook_body t x c)),
      s\<lparr>trace := trace s @ Call_sendWebhook t x c #
           (if slackWebhookURL w = [] then []
            else Http_Post (slackWebhookURL w) applicationJSON (webhook_body t x c) #
                 (case webhook_reply w (slackWebhookURL w) (webhook_body t x c) of
                    None \<Rightarrow> []
                  | Some e \<Rightarrow> [Log ErrorLevel ''failed to invoke webhook''
                                [(''err'', FError e)]]))\<rparr>)"
  by (cases "webhook_reply w (slackWebhookURL w) (webhook_body t x c)")
     (simp_all add: invoked_def sendWebhook_def httpClient_Post_def emit_def Let_def)

lemma processScan_cases:
  assumes g: "getTempFilename w (path_Ext (Key obj)) s = (g, s1)"
  obtains
    (no_path) e where "g = Inl e"
      and "processScan w obj s =
             invoked (sendWebhook w (error_title obj) (error_text e) ''danger'' s1)"
  | (no_file) p e where "g = Inr p" and "create_err w p = Some e \<or> fs s1 p = Some Directory"
      and "processScan w obj s =
             invoked (sendWebhook w (error_title obj)
               (error_text (''failed to create temporary file: '' @ e)) ''danger''
               (s1\<lparr>trace := trace s1 @
                 [Os_Create p,
                  Log ErrorLevel ''failed to create temporary file''
                    [(''err'', FError e), (''path'', FString p)]]\<rparr>))"
  | (nil_id) p where "g = Inr p" and "create_err w p = None" and "fs s1 p \<noteq> Some Directory"
      and "BackendFileID obj = NilPtr"
      and "processScan w obj s =
             (Panic nil_dereference,
              s1\<lparr>fs := (fs s1)(p \<mapsto> Regular),
                 trace := trace s1 @ [Os_Create p, File_Chmod p objectFileMode]\<rparr>)"
  | (no_fetch) p a fid e where "g = Inr p" and "create_err w p = None"
      and "fs s1 p \<noteq> Some Directory"
      and "BackendFileID obj = Ptr a fid" and "seaweed_reply w fid [] = Some e"
      and "processScan w obj s =
             invoked (sendWebhook w (error_title obj)
               (error_text (''failed to get file from SeaweedFS backend: '' @ e)) ''danger''
               (s1\<lparr>fs := (fs s1)(p \<mapsto> Regular),
                 trace := trace s1 @
                   [Os_Create p, File_Chmod p objectFileMode, Seaweed_Get fid [],
                    Log ErrorLevel ''failed to get file from SeaweedFS backend''
                      [(''err'', FError e), (''path'', FString p)]]\<rparr>))"
  | (no_scan) p a fid e where "g = Inr p" and "create_err w p = None"
      and "fs s1 p \<noteq> Some Directory"
      and "BackendFileID obj = Ptr a fid" and "seaweed_reply w fid [] = None"
      and "clamscan_reply w p = Inl e"
      and "processScan w obj s =
             invoked (sendWebhook w (error_title obj)
               (error_text (''failed to scan file: '' @ e)) ''danger''
               (s1\<lparr>fs := (fs s1)(p \<mapsto> Regular),
                 trace := trace s1 @
                   [Os_Create p, File_Chmod p objectFileMode, Seaweed_Get fid [],
                    Clamscan_Scan p,
                    Log ErrorLevel ''failed to scan file''
                      [(''err'', FError e), (''path'', FString p)]]\<rparr>))"
  | (nil_result) p a fid where "g = Inr p" and "create_err w p = None"
      and "fs s1 p \<noteq> Some Directory"
      and "BackendFileID obj = Ptr a fid" and "seaweed_reply w fid [] = None"
      and "clamscan_reply w p = Inr NilPtr"
      and "processScan w obj s =
             (Panic nil_dereference,
              s1\<lparr>fs := (fs s1)(p \<mapsto> Regular),
                 trace := trace s1 @
                   [Os_Create p, File_Chmod p objectFileMode, Seaweed_Get fid [],
                    Clamscan_Scan p]\<rparr>)"
  | (engine_error) p a fid b res e where "g = Inr p" and "create_err w p = None"
      and "fs s1 p \<noteq> Some Directory"
      and "BackendFileID obj = Ptr a fid" and "seaweed_reply w fid [] = None"
      and "clamscan_reply w p = Inr (Ptr b res)" and "Error res = Some e"
      and "processScan w obj s =
             invoked (sendWebhook w (error_title obj) (error_text e) ''danger''
               (s1\<lparr>fs := (fs s1)(p \<mapsto> Regular),
                 trace := trace s1 @
                   [Os_Create p, File_Chmod p objectFileMode, Seaweed_Get fid [],
                    Clamscan_Scan p]\<rparr>))"
  | (positive) p a fid b res where "g = Inr p" and "create_err w p = None"
      and "fs s1 p \<noteq> Some Directory"
      and "BackendFileID obj = Ptr a fid" and "seaweed_reply w fid [] = None"
      and "clamscan_reply w p = Inr (Ptr b res)" and "Error res = None" and "Found res"
      and "processScan w obj s =
             invoked (sendWebhook w (positive_title obj) (positive_text obj res) ''#439FE0''
               (s1\<lparr>fs := (fs s1)(p \<mapsto> Regular),
                 trace := trace s1 @
                   [Os_Create p, File_Chmod p objectFileMode, Seaweed_Get fid [],
                    Clamscan_Scan p,
                    Log InfoLevel ''found virus in a file''
                      [(''bucket_key'', FString (BucketKey obj)),
                       (''virus'', FString (Virus res)),
                       (''md5_hash'', FStringPtr (MD5Hash obj))]]\<rparr>))"
  | (clean) p a fid b res where "g = Inr p" and "create_err w p = None"
      and "fs s1 p \<noteq> Some Directory"
      and "BackendFileID obj = Ptr a fid" and "seaweed_reply w fid [] = None"
      and "clamscan_reply w p = Inr (Ptr b res)" and "Error res = None" and "\<not> Found res"
      and "processScan w obj s =
             (Return None,
              s1\<lparr>fs := (fs s1)(p \<mapsto> Regular),
                 trace := trace s1 @
                   [Os_Create p, File_Chmod p objectFileMode, Seaweed_Get fid [],
                    Clamscan_Scan p]\<rparr>)"
  using g
proof (cases rule: scan_cases)
  case (no_path e)
  then show ?thesis using that(1) by (simp add: processScan_def)
next
  case (no_file p e)
  then show ?thesis using that(2) by (simp add: processScan_def)
next
  case (nil_id p)
  then show ?thesis using that(3) by (simp add: processScan_def)
next
  case (no_fetch p a fid e)
  then show ?thesis using that(4) by (simp add: processScan_def)
next
  case (no_scan p a fid e)
  then show ?thesis using that(5) by (simp add: processScan_def)
next
  case (scanned p a fid r)
  show ?thesis
  proof (cases r)
    case NilPtr
    with scanned show ?thesis using that(6) by (simp add: processScan_def)
  next
    case (Ptr b res)
    show ?thesis
    proof (cases "Error res")
      case (Some e)
      with scanned Ptr show ?thesis using that(7) by (simp add: processScan_def)
    next
      case None
      show ?thesis
      proof (cases "Found res")
        case True
        with scanned Ptr None show ?thesis using that(8)
          by (simp add: processScan_def emit_def)
      next
        case False
        with scanned Ptr None show ?thesis using that(9) by (simp add: processScan_def)
      qed
    qed
  qed
qed

lemma obs_Nil:
  "notifications [] = []" "posts [] = []" "engine_calls [] = []" "store_calls [] = []"
  "creations [] = []" "mkdirs [] = []" "logs [] = []"
  by (simp_all add: obs_defs)

lemma obs_append:
  "notifications (xs @ ys) = notifications xs @ notifications ys"
  "posts (xs @ ys) = posts xs @ posts ys"
  "engine_calls (xs @ ys) = engine_calls xs @ engine_calls ys"
  "store_calls (xs @ ys) = store_calls xs @ store_calls ys"
  "creations (xs @ ys) = creations xs @ creations ys"
  "mkdirs (xs @ ys) = mkdirs xs @ mkdirs ys"
  "logs (xs @ ys) = logs xs @ logs ys"
  by (simp_all add: obs_defs)

lemma obs_Cons:
  "notifications (e # evs) =
     (case e of Call_sendWebhook t x c \<Rightarrow> (t, x, c) # notifications evs | _ \<Rightarrow> notifications evs)"
  "posts (e # evs) = (case e of Http_Post u c d \<Rightarrow> (u, c, d) # posts evs | _ \<Rightarrow> posts evs)"
  "engine_calls (e # evs) =
     (case e of Clamscan_Scan p \<Rightarrow> p # engine_calls evs | _ \<Rightarrow> engine_calls evs)"
  "store_calls (e # evs) =
     (case e of Seaweed_Get f q \<Rightarrow> (f, q) # store_calls evs | _ \<Rightarrow> store_calls evs)"
  "creations (e # evs) = (case e of Os_Create p \<Rightarrow> p # creations evs | _ \<Rightarrow> creations evs)"
  "mkdirs (e # evs) = (case e of Os_Mkdir p m \<Rightarrow> (p, m) # mkdirs evs | _ \<Rightarrow> mkdirs evs)"
  "logs (e # evs) = (case e of Log l m f \<Rightarrow> (l, m, f) # logs evs | _ \<Rightarrow> logs evs)"
  by (simp_all add: obs_defs split: event.splits)

lemmas obs_simps = obs_Nil obs_append obs_Cons

lemma since_trace: "trace s' = trace s @ evs \<Longrightarrow> since s s' = evs"
  by (simp add: since_def)

lemma getTempFilename_events:
  assumes "getTempFilename w ext s = (g, s1)"
  shows "\<exists>evs. trace s1 = trace s @ evs
     \<and> notifications evs = [] \<and> posts evs = [] \<and> engine_calls evs = []
     \<and> store_calls evs = [] \<and> creations evs = []
     \<and> (\<forall>p. g = Inr p \<longrightarrow> logs evs = [])"
proof (cases rule: getTempFilename_cases [of w s ext])
  case kept
  with assms have "trace s1 = trace s @ [Os_Stat (tmpDir (name_dir w s))]"
    by auto
  then show ?thesis
    by (intro exI [of _ "[Os_Stat (tmpDir (name_dir w s))]"]) (simp add: obs_simps)
next
  case remade
  with assms have "trace s1 = trace s @ [Os_Stat (tmpDir (name_dir w s)),
      Os_Mkdir (os_TempDir w @ ''/bitscan_'' @ uniuri w (drawn (name_dir w s))) folderFileMode]"
    by auto
  then show ?thesis
    by (intro exI [of _ "[Os_Stat (tmpDir (name_dir w s)),
      Os_Mkdir (os_TempDir w @ ''/bitscan_'' @ uniuri w (drawn (name_dir w s))) folderFileMode]"])
       (simp add: obs_simps)
next
  case (not_made e)
  with assms have "g = Inl e" and "trace s1 = trace s @ [Os_Stat (tmpDir (name_dir w s)),
      Os_Mkdir (os_TempDir w @ ''/bitscan_'' @ uniuri w (drawn (name_dir w s))) folderFileMode,
      Log ErrorLevel ''failed to generate temporary directory'' [(''err'', FError e)]]"
    by auto
  then show ?thesis
    by (intro exI [of _ "[Os_Stat (tmpDir (name_dir w s)),
      Os_Mkdir (os_TempDir w @ ''/bitscan_'' @ uniuri w (drawn (name_dir w s))) folderFileMode,
      Log ErrorLevel ''failed to generate temporary directory'' [(''err'', FError e)]]"])
       (simp add: obs_simps)
qed

lemma scan_events:
  assumes "scan w obj s = (r1, s2)"
  shows "\<exists>evs. trace s2 = trace s @ evs \<and> notifications evs = [] \<and> posts evs = []"
proof -
  obtain g s1 where g: "getTempFilename w (path_Ext (Key obj)) s = (g, s1)"
    by (cases "getTempFilename w (path_Ext (Key obj)) s")
  from getTempFilename_events [OF g]
  obtain evs where evs: "trace s1 = trace s @ evs" "notifications evs = []" "posts evs = []"
    by (elim exE conjE)
  from g show ?thesis
  proof (cases rule: scan_cases)
    case (no_path e)
    with assms evs show ?thesis by auto
  next
    case (no_file p e)
    with assms evs show ?thesis by (clarsimp simp: obs_simps)
  next
    case (nil_id p)
    with assms evs show ?thesis by (clarsimp simp: obs_simps)
  next
    case (no_fetch p a fid e)
    with assms evs show ?thesis by (clarsimp simp: obs_simps)
  next
    case (no_scan p a fid e)
    with assms evs show ?thesis by (clarsimp simp: obs_simps)
  next
    case (scanned p a fid res)
    with assms evs show ?thesis by (clarsimp simp: obs_simps)
  qed
qed

lemma lib_webhook_reply:
  "uniuri_New (w\<lparr>webhook_reply := f\<rparr>) s = uniuri_New w s"
  "os_Stat (w\<lparr>webhook_reply := f\<rparr>) p s = os_Stat w p s"
  "os_Mkdir (w\<lparr>webhook_reply := f\<rparr>) p m s = os_Mkdir w p m s"
  "os_Create (w\<lparr>webhook_reply := f\<rparr>) p s = os_Create w p s"
  "seaweed_Get (w\<lparr>webhook_reply := f\<rparr>) fid q s = seaweed_Get w fid q s"
  "clamscan_Scan (w\<lparr>webhook_reply := f\<rparr>) p s = clamscan_Scan w p s"
  by (simp_all add: uniuri_New_def os_Stat_def os_Mkdir_def os_Create_def seaweed_Get_def
      clamscan_Scan_def)

lemma fresh_dir_webhook_reply: "fresh_dir (w\<lparr>webhook_reply := f\<rparr>) s = fresh_dir w s"
  by (simp add: fresh_dir_def lib_webhook_reply)

lemma name_dir_webhook_reply: "name_dir (w\<lparr>webhook_reply := f\<rparr>) s = name_dir w s"
  by (simp add: name_dir_def fresh_dir_webhook_reply)

lemma new_path_webhook_reply: "new_path (w\<lparr>webhook_reply := f\<rparr>) ext s = new_path w ext s"
  by (simp add: new_path_def lib_webhook_reply)

lemma getTempFilename_webhook_reply:
  "getTempFilename (w\<lparr>webhook_reply := f\<rparr>) ext s = getTempFilename w ext s"
  unfolding getTempFilename_def lib_webhook_reply fresh_dir_webhook_reply
    name_dir_webhook_reply new_path_webhook_reply ..

lemma scan_webhook_reply: "scan (w\<lparr>webhook_reply := f\<rparr>) obj s = scan w obj s"
  unfolding scan_def lib_webhook_reply getTempFilename_webhook_reply ..

lemma notify_failure:
  assumes "invoked (sendWebhook w t x c s2) = (r, s')"
    and "invoked (sendWebhook (w\<lparr>webhook_reply := \<lambda>u d. None\<rparr>) t x c s2) = (r0, s0)"
    and "trace s2 = trace s @ evs" and "posts evs = []"
    and "(u, ct, d) \<in> set (posts (since s s'))" and "webhook_reply w u d = Some e"
  shows "r = Return (Some e) \<and> r0 = Return None
         \<and> s' = emit (Log ErrorLevel ''failed to invoke webhook'' [(''err'', FError e)]) s0"
  using assms
  by (clarsimp simp: invoked_sendWebhook since_def obs_simps emit_def
      split: if_splits option.splits)

lemma processScan_extends:
  assumes run: "processScan w obj s = (r, s')"
  shows "trace s' = trace s @ since s s'"
proof -
  obtain g s1 where g: "getTempFilename w (path_Ext (Key obj)) s = (g, s1)"
    by (cases "getTempFilename w (path_Ext (Key obj)) s")
  from getTempFilename_events [OF g]
  obtain evs where evs: "trace s1 = trace s @ evs"
    by (elim exE conjE)
  from g show ?thesis
    by (cases rule: processScan_cases)
       (use run evs in \<open>clarsimp simp: invoked_sendWebhook since_def\<close>)+
qed

lemma serve_response: "fst (serve w req s) = fst (scanObject_async w req)"
  by (simp add: serve_def split: prod.splits option.splits)

lemma scanObject_async_webhook_reply:
  "scanObject_async (w\<lparr>webhook_reply := f\<rparr>) req = scanObject_async w req"
  by (simp add: scanObject_async_def Let_def)

lemma getTempFilename_fs:
  assumes "getTempFilename w ext s = (g, s1)"
  shows "fs s \<subseteq>\<^sub>m fs s1 \<and> (\<forall>p. g = Inr p \<and> fs s1 p = Some Directory \<longrightarrow> fs s p = Some Directory)"
proof (cases rule: getTempFilename_cases [of w s ext])
  case kept
  with assms show ?thesis by (auto simp: name_dir_fs)
next
  case remade
  with assms show ?thesis by (auto simp: name_dir_fs map_le_def)
next
  case (not_made e)
  with assms show ?thesis by (auto simp: name_dir_fs)
qed

lemma map_le_Regular:
  assumes "m \<subseteq>\<^sub>m m1" and "m1 p \<noteq> Some Directory"
  shows "m \<subseteq>\<^sub>m m1(p \<mapsto> Regular)"
  unfolding map_le_def
proof
  fix a
  assume a: "a \<in> dom m"
  with assms(1) have eq: "m a = m1 a" by (simp add: map_le_def)
  show "m a = (m1(p \<mapsto> Regular)) a"
  proof (cases "a = p")
    case True
    from a obtain n where n: "m a = Some n" by auto
    with eq True assms(2) have "n = Regular" by (cases n) simp_all
    with n True show ?thesis by simp
  next
    case False
    with eq show ?thesis by simp
  qed
qed

lemma nil_id_panics:
  assumes "BackendFileID obj = NilPtr"
    and "getTempFilename w (path_Ext (Key obj)) s = (Inr p, s1)"
    and "create_err w p = None" and "fs s1 p \<noteq> Some Directory"
  shows "fst (processScan w obj s) = Panic nil_dereference"
  using assms(2)
  by (cases rule: processScan_cases) (use assms in auto)

lemma positive_text_ignores_hash:
  "positive_text (obj\<lparr>MD5Hash := Ptr a h\<rparr>) res = positive_text (obj\<lparr>MD5Hash := Ptr a h'\<rparr>) res"
  by (simp add: positive_text_def sprintf_s_ptr_def)

lemma positive_text_mentions:
  "sublist (BucketKey obj) (positive_title obj)"
  "sublist (BucketKey obj) (positive_text obj res)"
  "sublist (Virus res) (positive_text obj res)"
  "sublist ''It has not been deleted from storage backend.'' (positive_text obj res)"
proof -
  show "sublist (BucketKey obj) (positive_title obj)"
    unfolding positive_title_def by (rule sublist_appendI)
  show "sublist (BucketKey obj) (positive_text obj res)"
    unfolding positive_text_def by (rule sublist_appendI)
  have "positive_text obj res =
      (''`'' @ BucketKey obj @ ''` (`'' @ sprintf_s_ptr (MD5Hash obj)
       @ ''`) returned positive during scan with virus `'') @ Virus res
      @ (''`.'' @ [CHR 0x0A, CHR 0x0A] @ ''It has not been deleted from storage backend.'')"
    by (simp add: positive_text_def)
  then show "sublist (Virus res) (positive_text obj res)"
    by (simp only: sublist_appendI)
  have "positive_text obj res =
      (''`'' @ BucketKey obj @ ''` (`'' @ sprintf_s_ptr (MD5Hash obj)
       @ ''`) returned positive during scan with virus `'' @ Virus res
       @ ''`.'' @ [CHR 0x0A, CHR 0x0A]) @ ''It has not been deleted from storage backend.''"
    by (simp add: positive_text_def)
  then show "sublist ''It has not been deleted from storage backend.'' (positive_text obj res)"
    by (simp only: sublist_append_leftI)
qed

lemma detection_notifies_once:
  assumes run: "processScan w obj s = (r, s')"
    and scanned: "p \<in> set (engine_calls (since s s'))"
    and verdict: "clamscan_reply w p = Inr (Ptr a res)" "Error res = None" "Found res"
  shows "notifications (since s s') =
           [(positive_title obj, positive_text obj res, ''#439FE0'')]
         \<and> posts (since s s') =
             (if slackWebhookURL w = [] then []
              else [(slackWebhookURL w, applicationJSON,
                     webhook_body (positive_title obj) (positive_text obj res) ''#439FE0'')])
         \<and> [(l, m, f) \<leftarrow> logs (since s s'). l = InfoLevel] =
             [(InfoLevel, ''found virus in a file'',
               [(''bucket_key'', FString (BucketKey obj)), (''virus'', FString (Virus res)),
                (''md5_hash'', FStringPtr (MD5Hash obj))])]"
proof -
  obtain g s1 where g: "getTempFilename w (path_Ext (Key obj)) s = (g, s1)"
    by (cases "getTempFilename w (path_Ext (Key obj)) s")
  from getTempFilename_events [OF g]
  obtain evs where evs: "trace s1 = trace s @ evs" "notifications evs = []"
     "posts evs = []" "engine_calls evs = []" "\<forall>p. g = Inr p \<longrightarrow> logs evs = []"
    by (elim exE conjE)
  note defs = invoked_sendWebhook since_def obs_simps
  from g show ?thesis
  proof (cases rule: processScan_cases)
    case (no_path e)
    with run scanned evs show ?thesis by (clarsimp simp: defs split: option.splits if_splits)
  next
    case (no_file p' e)
    with run scanned evs show ?thesis by (clarsimp simp: defs split: option.splits if_splits)
  next
    case (nil_id p')
    with run scanned evs show ?thesis by (clarsimp simp: defs)
  next
    case (no_fetch p' a' fid e)
    with run scanned evs show ?thesis by (clarsimp simp: defs split: option.splits if_splits)
  next
    case (no_scan p' a' fid e)
    with run scanned verdict evs show ?thesis
      by (clarsimp simp: defs split: option.splits if_splits)
  next
    case (nil_result p' a' fid)
    with run scanned verdict evs show ?thesis by (clarsimp simp: defs)
  next
    case (engine_error p' a' fid b res' e)
    with run scanned verdict evs show ?thesis
      by (clarsimp simp: defs split: option.splits if_splits)
  next
    case (positive p' a' fid b res')
    with run scanned verdict evs show ?thesis
      by (clarsimp simp: defs split: option.splits if_splits)
  next
    case (clean p' a' fid b res')
    with run scanned verdict evs show ?thesis by (clarsimp simp: defs)
  qed
qed

subsection \<open>Concrete runs, evaluated\<close>

lemmas run_defs = processScan_def scan_def sendWebhook_def invoked_def getTempFilename_def
  name_dir_def lib_defs Let_def path_Ext_def webhook_body_def
  error_title_def error_text_def positive_title_def positive_text_def sprintf_s_ptr_def
  hex.simps hexdigit_def

lemma run_splits: "processScan w obj s = (fst (processScan w obj s), snd (processScan w obj s))"
  by simp

lemma fetch_failing_run:
  "since initial_state (snd (processScan fetch_failing_world eicar_object initial_state)) =
     [Os_Stat ''/tmp/bitscan_aaaaaaaaaaaaaaaa'',
      Os_Mkdir ''/tmp/bitscan_bbbbbbbbbbbbbbbb'' folderFileMode,
      Os_Create ''/tmp/bitscan_bbbbbbbbbbbbbbbb/cccccccccccccccc.bin'',
      File_Chmod ''/tmp/bitscan_bbbbbbbbbbbbbbbb/cccccccccccccccc.bin'' objectFileMode,
      Seaweed_Get ''3,01637037d6'' [],
      Log ErrorLevel ''failed to get file from SeaweedFS backend''
        [(''err'', FError ''404 Not Found''),
         (''path'', FString ''/tmp/bitscan_bbbbbbbbbbbbbbbb/cccccccccccccccc.bin'')],
      Call_sendWebhook ''Error scanning `bkt/key1`''
        (''```'' @ [CHR 0x0A] @ ''failed to get file from SeaweedFS backend: 404 Not Found```'')
        ''danger'',
      Http_Post ''https://hooks.example/services/T0'' ''application/json''
        [(''attachments'',
          [\<lparr>Fallback = ''**Error scanning `bkt/key1`**'' @ [CHR 0x0A] @ ''```'' @ [CHR 0x0A]
               @ ''failed to get file from SeaweedFS backend: 404 Not Found```'',
            Color = ''danger'',
            Title = ''Error scanning `bkt/key1`'',
            Text = ''```'' @ [CHR 0x0A]
               @ ''failed to get file from SeaweedFS backend: 404 Not Found```''\<rparr>])]]"
  by (simp add: since_def run_defs fetch_failing_world_def fixture_defs applicationJSON_def)

lemma clean_run:
  "since initial_state (snd (processScan clean_world eicar_object initial_state)) =
     [Os_Stat ''/tmp/bitscan_aaaaaaaaaaaaaaaa'',
      Os_Mkdir ''/tmp/bitscan_bbbbbbbbbbbbbbbb'' folderFileMode,
      Os_Create ''/tmp/bitscan_bbbbbbbbbbbbbbbb/cccccccccccccccc.bin'',
      File_Chmod ''/tmp/bitscan_bbbbbbbbbbbbbbbb/cccccccccccccccc.bin'' objectFileMode,
      Seaweed_Get ''3,01637037d6'' [],
      Clamscan_Scan ''/tmp/bitscan_bbbbbbbbbbbbbbbb/cccccccccccccccc.bin'']"
  by (simp add: since_def run_defs clean_world_def clean_result_def fixture_defs)

lemma webhook_down_run:
  "since initial_state (snd (processScan webhook_down_world eicar_object initial_state)) =
     [Os_Stat ''/tmp/bitscan_aaaaaaaaaaaaaaaa'',
      Os_Mkdir ''/tmp/bitscan_bbbbbbbbbbbbbbbb'' folderFileMode,
      Os_Create ''/tmp/bitscan_bbbbbbbbbbbbbbbb/cccccccccccccccc.bin'',
      File_Chmod ''/tmp/bitscan_bbbbbbbbbbbbbbbb/cccccccccccccccc.bin'' objectFileMode,
      Seaweed_Get ''3,01637037d6'' [],
      Clamscan_Scan ''/tmp/bitscan_bbbbbbbbbbbbbbbb/cccccccccccccccc.bin'',
      Log InfoLevel ''found virus in a file''
        [(''bucket_key'', FString ''bkt/key1''),
         (''virus'', FString ''Eicar-Test-Signature''),
         (''md5_hash'', FStringPtr (Ptr 0xc00001c030 ''44d88612fea8a8f36de82e1278abb02f''))],
      Call_sendWebhook (positive_title eicar_object) (positive_text eicar_object eicar_result)
        ''#439FE0'',
      Http_Post ''https://hooks.example/services/T0'' ''application/json''
        (webhook_body (positive_title eicar_object) (positive_text eicar_object eicar_result)
           ''#439FE0''),
      Log ErrorLevel ''failed to invoke webhook'' [(''err'', FError ''connection refused'')]]"
  by (simp add: since_def run_defs webhook_down_world_def fixture_defs applicationJSON_def)

lemma silent_run:
  "since initial_state (snd (processScan silent_world eicar_object initial_state)) =
     [Os_Stat ''/tmp/bitscan_aaaaaaaaaaaaaaaa'',
      Os_Mkdir ''/tmp/bitscan_bbbbbbbbbbbbbbbb'' folderFileMode,
      Os_Create ''/tmp/bitscan_bbbbbbbbbbbbbbbb/cccccccccccccccc.bin'',
      File_Chmod ''/tmp/bitscan_bbbbbbbbbbbbbbbb/cccccccccccccccc.bin'' objectFileMode,
      Seaweed_Get ''3,01637037d6'' [],
      Clamscan_Scan ''/tmp/bitscan_bbbbbbbbbbbbbbbb/cccccccccccccccc.bin'',
      Log InfoLevel ''found virus in a file''
        [(''bucket_key'', FString ''bkt/key1''),
         (''virus'', FString ''Eicar-Test-Signature''),
         (''md5_hash'', FStringPtr (Ptr 0xc00001c030 ''44d88612fea8a8f36de82e1278abb02f''))],
      Call_sendWebhook (positive_title eicar_object) (positive_text eicar_object eicar_result)
        ''#439FE0'']"
  by (simp add: since_def run_defs silent_world_def fixture_defs)

lemma body_defs:
  "eicar_body \<noteq> no_id_body" "eicar_body \<noteq> type1_body" "eicar_body \<noteq> truncated_body"
  "no_id_body \<noteq> type1_body" "no_id_body \<noteq> truncated_body" "type1_body \<noteq> truncated_body"
  by (simp_all add: eicar_body_def no_id_body_def type1_body_def truncated_body_def)

lemma example_Unmarshal_simps:
  "example_Unmarshal eicar_body = Inr eicar_object"
  "example_Unmarshal no_id_body = Inr zero_object"
  "example_Unmarshal type1_body = Inr (zero_object\<lparr>Type := 1\<rparr>)"
  "example_Unmarshal truncated_body = Inl ''unexpected end of JSON input''"
  using body_defs by (simp_all add: example_Unmarshal_def)

lemma positive_run:
  "since initial_state (snd (processScan example_world eicar_object initial_state)) =
     [Os_Stat ''/tmp/bitscan_aaaaaaaaaaaaaaaa'',
      Os_Mkdir ''/tmp/bitscan_bbbbbbbbbbbbbbbb'' folderFileMode,
      Os_Create ''/tmp/bitscan_bbbbbbbbbbbbbbbb/cccccccccccccccc.bin'',
      File_Chmod ''/tmp/bitscan_bbbbbbbbbbbbbbbb/cccccccccccccccc.bin'' objectFileMode,
      Seaweed_Get ''3,01637037d6'' [],
      Clamscan_Scan ''/tmp/bitscan_bbbbbbbbbbbbbbbb/cccccccccccccccc.bin'',
      Log InfoLevel ''found virus in a file''
        [(''bucket_key'', FString ''bkt/key1''),
         (''virus'', FString ''Eicar-Test-Signature''),
         (''md5_hash'', FStringPtr (Ptr 0xc00001c030 ''44d88612fea8a8f36de82e1278abb02f''))],
      Call_sendWebhook (positive_title eicar_object) (positive_text eicar_object eicar_result)
        ''#439FE0'',
      Http_Post ''https://hooks.example/services/T0'' ''application/json''
        (webhook_body (positive_title eicar_object) (positive_text eicar_object eicar_result)
           ''#439FE0'')]"
  by (simp add: since_def run_defs fixture_defs applicationJSON_def)

lemma split_alloc:
  "getTempFilename w ext s = (fst (getTempFilename w ext s), snd (getTempFilename w ext s))"
  by simp

lemmas alloc_defs = getTempFilename_def name_dir_def lib_defs Let_def

lemma no_id_run:
  "processScan example_world zero_object initial_state =
     (Panic nil_dereference,
      \<lparr>tmpDir = ''/tmp/bitscan_bbbbbbbbbbbbbbbb'', drawn = 3,
       fs = [''/tmp'' \<mapsto> Directory, ''/tmp/bitscan_bbbbbbbbbbbbbbbb'' \<mapsto> Directory,
             ''/tmp/bitscan_bbbbbbbbbbbbbbbb/cccccccccccccccc'' \<mapsto> Regular],
       trace =
         [Os_Stat ''/tmp/bitscan_aaaaaaaaaaaaaaaa'',
          Os_Mkdir ''/tmp/bitscan_bbbbbbbbbbbbbbbb'' folderFileMode,
          Os_Create ''/tmp/bitscan_bbbbbbbbbbbbbbbb/cccccccccccccccc'',
          File_Chmod ''/tmp/bitscan_bbbbbbbbbbbbbbbb/cccccccccccccccc'' objectFileMode]\<rparr>)"
  by (simp add: run_defs example_world_def initial_state_def zero_object_def numeral_3_eq_3)

subsection \<open>Fetch failure\<close>

text \<open>
  C3. In every pipeline run in which the object fetch fails (the run calls the store for
  some file id, and the store answers that call with an error), exactly one error
  notification is handed to the notifier; its title contains the bucket key, its color is
  \<^verbatim>\<open>danger\<close>; the scan engine is not invoked in that run. With a webhook URL configured
  the message goes out as exactly one HTTP request, with none configured as none.
\<close>

theorem fetch_failure_notifies_once:
  assumes run: "processScan w obj s = (r, s')"
    and fetched: "(fid, q) \<in> set (store_calls (since s s'))"
    and failed: "seaweed_reply w fid q = Some err"
  shows "notifications (since s s') =
           [(error_title obj,
             error_text (''failed to get file from SeaweedFS backend: '' @ err), ''danger'')]
         \<and> sublist (BucketKey obj) (error_title obj)
         \<and> engine_calls (since s s') = []
         \<and> posts (since s s') =
             (if slackWebhookURL w = [] then []
              else [(slackWebhookURL w, applicationJSON,
                     webhook_body (error_title obj)
                       (error_text (''failed to get file from SeaweedFS backend: '' @ err))
                       ''danger'')])"
proof -
  obtain g s1 where g: "getTempFilename w (path_Ext (Key obj)) s = (g, s1)"
    by (cases "getTempFilename w (path_Ext (Key obj)) s")
  from getTempFilename_events [OF g]
  obtain evs where evs: "trace s1 = trace s @ evs" "notifications evs = []"
     "posts evs = []" "engine_calls evs = []" "store_calls evs = []"
    by (elim exE conjE)
  have t: "sublist (BucketKey obj) (error_title obj)"
    unfolding error_title_def by (rule sublist_appendI)
  note defs = invoked_sendWebhook since_def obs_simps
  from g show ?thesis
  proof (cases rule: processScan_cases)
    case (no_path e)
    with run fetched evs show ?thesis by (clarsimp simp: defs split: option.splits if_splits)
  next
    case (no_file p e)
    with run fetched evs show ?thesis by (clarsimp simp: defs split: option.splits if_splits)
  next
    case (nil_id p)
    with run fetched evs show ?thesis by (clarsimp simp: defs split: if_splits)
  next
    case (no_fetch p a fid' e)
    with run fetched failed evs t show ?thesis
      by (clarsimp simp: defs split: option.splits if_splits)
  next
    case (no_scan p a fid' e)
    with run fetched failed evs show ?thesis by (clarsimp simp: defs split: option.splits if_splits)
  next
    case (nil_result p a fid')
    with run fetched failed evs show ?thesis by (clarsimp simp: defs split: if_splits)
  next
    case (engine_error p a fid' b res e)
    with run fetched failed evs show ?thesis by (clarsimp simp: defs split: option.splits if_splits)
  next
    case (positive p a fid' b res)
    with run fetched failed evs show ?thesis by (clarsimp simp: defs split: option.splits if_splits)
  next
    case (clean p a fid' b res)
    with run fetched failed evs show ?thesis by (clarsimp simp: defs split: if_splits)
  qed
qed

theorem fetch_failure_notifies_once_witness:
  "(''3,01637037d6'', []) \<in> set (store_calls (since initial_state
       (snd (processScan fetch_failing_world eicar_object initial_state))))
   \<and> seaweed_reply fetch_failing_world ''3,01637037d6'' [] = Some ''404 Not Found''
   \<and> notifications (since initial_state
         (snd (processScan fetch_failing_world eicar_object initial_state))) =
       [(''Error scanning `bkt/key1`'',
         ''```'' @ [CHR 0x0A] @ ''failed to get file from SeaweedFS backend: 404 Not Found```'',
         ''danger'')]
   \<and> sublist ''bkt/key1'' ''Error scanning `bkt/key1`''
   \<and> engine_calls (since initial_state
         (snd (processScan fetch_failing_world eicar_object initial_state))) = []"
proof -
  have fetched: "(''3,01637037d6'', []) \<in> set (store_calls (since initial_state
       (snd (processScan fetch_failing_world eicar_object initial_state))))"
    by (simp add: fetch_failing_run obs_simps)
  have failed: "seaweed_reply fetch_failing_world ''3,01637037d6'' [] = Some ''404 Not Found''"
    by (simp add: fetch_failing_world_def)
  from fetch_failure_notifies_once [OF run_splits fetched failed] fetched failed
  show ?thesis
    by (simp add: error_title_def error_text_def eicar_object_def)
qed

subsection \<open>Clean verdict\<close>

text \<open>
  C6. In every pipeline run in which the scan engine reports a clean verdict (the run
  invokes the engine on a path, and the engine answers with a result that carries no
  error and is not a detection), no notification is sent, neither to the notifier nor
  as an HTTP request, nothing is logged, so no error is, and the run returns \<^verbatim>\<open>nil\<close>.
\<close>

theorem clean_verdict_is_silent:
  assumes run: "processScan w obj s = (r, s')"
    and scanned: "p \<in> set (engine_calls (since s s'))"
    and verdict: "clamscan_reply w p = Inr (Ptr a res)" "Error res = None" "\<not> Found res"
  shows "notifications (since s s') = [] \<and> posts (since s s') = []
         \<and> logs (since s s') = [] \<and> r = Return None"
proof -
  obtain g s1 where g: "getTempFilename w (path_Ext (Key obj)) s = (g, s1)"
    by (cases "getTempFilename w (path_Ext (Key obj)) s")
  from getTempFilename_events [OF g]
  obtain evs where evs: "trace s1 = trace s @ evs" "notifications evs = []"
     "posts evs = []" "engine_calls evs = []" "\<forall>p. g = Inr p \<longrightarrow> logs evs = []"
    by (elim exE conjE)
  note defs = invoked_sendWebhook since_def obs_simps
  from g show ?thesis
  proof (cases rule: processScan_cases)
    case (no_path e)
    with run scanned evs show ?thesis by (clarsimp simp: defs split: option.splits if_splits)
  next
    case (no_file p' e)
    with run scanned evs show ?thesis by (clarsimp simp: defs split: option.splits if_splits)
  next
    case (nil_id p')
    with run scanned evs show ?thesis by (clarsimp simp: defs)
  next
    case (no_fetch p' a' fid e)
    with run scanned evs show ?thesis by (clarsimp simp: defs split: option.splits if_splits)
  next
    case (no_scan p' a' fid e)
    with run scanned verdict evs show ?thesis
      by (clarsimp simp: defs split: option.splits if_splits)
  next
    case (nil_result p' a' fid)
    with run scanned verdict evs show ?thesis by (clarsimp simp: defs)
  next
    case (engine_error p' a' fid b res' e)
    with run scanned verdict evs show ?thesis
      by (clarsimp simp: defs split: option.splits if_splits)
  next
    case (positive p' a' fid b res')
    with run scanned verdict evs show ?thesis
      by (clarsimp simp: defs split: option.splits if_splits)
  next
    case (clean p' a' fid b res')
    with run scanned verdict evs show ?thesis by (clarsimp simp: defs)
  qed
qed

theorem clean_verdict_is_silent_witness:
  "''/tmp/bitscan_bbbbbbbbbbbbbbbb/cccccccccccccccc.bin'' \<in> set (engine_calls
      (since initial_state (snd (processScan clean_world eicar_object initial_state))))
   \<and> clamscan_reply clean_world ''/tmp/bitscan_bbbbbbbbbbbbbbbb/cccccccccccccccc.bin'' =
       Inr (Ptr 0xc00009a000 clean_result)
   \<and> Error clean_result = None \<and> \<not> Found clean_result
   \<and> notifications (since initial_state
         (snd (processScan clean_world eicar_object initial_state))) = []
   \<and> posts (since initial_state
         (snd (processScan clean_world eicar_object initial_state))) = []
   \<and> logs (since initial_state
         (snd (processScan clean_world eicar_object initial_state))) = []
   \<and> fst (processScan clean_world eicar_object initial_state) = Return None"
proof -
  have scanned: "''/tmp/bitscan_bbbbbbbbbbbbbbbb/cccccccccccccccc.bin'' \<in> set (engine_calls
      (since initial_state (snd (processScan clean_world eicar_object initial_state))))"
    by (simp add: clean_run obs_simps)
  have reply: "clamscan_reply clean_world ''/tmp/bitscan_bbbbbbbbbbbbbbbb/cccccccccccccccc.bin''
      = Inr (Ptr 0xc00009a000 clean_result)"
    by (simp add: clean_world_def)
  have verdict: "Error clean_result = None" "\<not> Found clean_result"
    by (simp_all add: clean_result_def)
  from clean_verdict_is_silent [OF run_splits scanned reply verdict] scanned reply verdict
  show ?thesis by simp
qed

subsection \<open>Webhook failure\<close>

text \<open>
  C4. A failing webhook invocation is logged and nothing else. Take a run in which an HTTP
  request to the webhook fails, and the same run in the world where the webhook answers
  without error: the failing run ends in the state of the other run plus one error log
  line \<^verbatim>\<open>failed to invoke webhook\<close>. So the same notifications were handed over
  (the branch taken is the same), no further call is made, the run returns (the error,
  which the caller \<^verbatim>\<open>go processScan(data)\<close> drops) and the HTTP response is the same.
\<close>

theorem webhook_failure_is_only_logged:
  assumes run: "processScan w obj s = (r, s')"
    and posted: "(u, ct, d) \<in> set (posts (since s s'))"
    and failed: "webhook_reply w u d = Some e"
    and run0: "processScan (w\<lparr>webhook_reply := \<lambda>u d. None\<rparr>) obj s = (r0, s0)"
  shows "r = Return (Some e) \<and> r0 = Return None
         \<and> s' = emit (Log ErrorLevel ''failed to invoke webhook'' [(''err'', FError e)]) s0
         \<and> since s s' = since s s0 @
              [Log ErrorLevel ''failed to invoke webhook'' [(''err'', FError e)]]
         \<and> notifications (since s s') = notifications (since s s0)
         \<and> fst (serve w req s) = fst (serve (w\<lparr>webhook_reply := \<lambda>u d. None\<rparr>) req s)"
proof -
  obtain r1 s2 where sc: "scan w obj s = (r1, s2)"
    by (cases "scan w obj s")
  from scan_events [OF sc]
  obtain evs where evs: "trace s2 = trace s @ evs" "notifications evs = []" "posts evs = []"
    by (elim exE conjE)
  have main: "r = Return (Some e) \<and> r0 = Return None
         \<and> s' = emit (Log ErrorLevel ''failed to invoke webhook'' [(''err'', FError e)]) s0"
  proof (cases r1)
    case (Panic m)
    with run posted sc evs show ?thesis
      by (clarsimp simp: processScan_def since_def)
  next
    case (Return v)
    show ?thesis
    proof (cases v)
      case (Inl err)
      with Return sc run run0 have
        "invoked (sendWebhook w (error_title obj) (error_text err) ''danger'' s2) = (r, s')"
        "invoked (sendWebhook (w\<lparr>webhook_reply := \<lambda>u d. None\<rparr>)
            (error_title obj) (error_text err) ''danger'' s2) = (r0, s0)"
        by (simp_all add: processScan_def scan_webhook_reply)
      from notify_failure [OF this evs(1,3) posted failed] show ?thesis .
    next
      case (Inr ptr)
      show ?thesis
      proof (cases ptr)
        case NilPtr
        with Inr Return run posted sc evs show ?thesis
          by (clarsimp simp: processScan_def since_def)
      next
        case (Ptr b res)
        show ?thesis
        proof (cases "Error res")
          case (Some err)
          with Ptr Inr Return sc run run0 have
            "invoked (sendWebhook w (error_title obj) (error_text err) ''danger'' s2) = (r, s')"
            "invoked (sendWebhook (w\<lparr>webhook_reply := \<lambda>u d. None\<rparr>)
               (error_title obj) (error_text err) ''danger'' s2) = (r0, s0)"
            by (simp_all add: processScan_def scan_webhook_reply)
          from notify_failure [OF this evs(1,3) posted failed] show ?thesis .
        next
          case None
          show ?thesis
          proof (cases "Found res")
            case True
            let ?s3 = "emit (Log InfoLevel ''found virus in a file''
                            [(''bucket_key'', FString (BucketKey obj)),
                             (''virus'', FString (Virus res)),
                             (''md5_hash'', FStringPtr (MD5Hash obj))]) s2"
            from True None Ptr Inr Return sc run run0 have
              "invoked (sendWebhook w (positive_title obj) (positive_text obj res) ''#439FE0''
                 ?s3) = (r, s')"
              "invoked (sendWebhook (w\<lparr>webhook_reply := \<lambda>u d. None\<rparr>)
                 (positive_title obj) (positive_text obj res) ''#439FE0'' ?s3) = (r0, s0)"
              by (simp_all add: processScan_def scan_webhook_reply)
            moreover have "trace ?s3 = trace s @ (evs @ [Log InfoLevel ''found virus in a file''
                            [(''bucket_key'', FString (BucketKey obj)),
                             (''virus'', FString (Virus res)),
                             (''md5_hash'', FStringPtr (MD5Hash obj))]])"
              using evs by (simp add: emit_def)
            moreover have "posts (evs @ [Log InfoLevel ''found virus in a file''
                            [(''bucket_key'', FString (BucketKey obj)),
                             (''virus'', FString (Virus res)),
                             (''md5_hash'', FStringPtr (MD5Hash obj))]]) = []"
              using evs by (simp add: obs_simps)
            ultimately show ?thesis using posted failed by (rule notify_failure)
          next
            case False
            with None Ptr Inr Return run posted sc evs show ?thesis
              by (clarsimp simp: processScan_def since_def)
          qed
        qed
      qed
    qed
  qed
  from processScan_extends [OF run0] have ext0: "trace s0 = trace s @ since s s0" .
  from main have s': "trace s' = trace s0 @
      [Log ErrorLevel ''failed to invoke webhook'' [(''err'', FError e)]]"
    by (simp add: emit_def)
  have ev: "since s s' = since s s0 @
      [Log ErrorLevel ''failed to invoke webhook'' [(''err'', FError e)]]"
    by (rule since_trace) (simp add: s' ext0 [symmetric])
  have "fst (serve w req s) = fst (serve (w\<lparr>webhook_reply := \<lambda>u d. None\<rparr>) req s)"
    by (simp add: serve_response scanObject_async_webhook_reply)
  with main ev show ?thesis by (simp add: obs_simps)
qed

theorem webhook_failure_is_only_logged_witness:
  "(''https://hooks.example/services/T0'', ''application/json'',
      webhook_body (positive_title eicar_object) (positive_text eicar_object eicar_result)
        ''#439FE0'')
     \<in> set (posts (since initial_state
           (snd (processScan webhook_down_world eicar_object initial_state))))
   \<and> webhook_reply webhook_down_world ''https://hooks.example/services/T0''
         (webhook_body (positive_title eicar_object) (positive_text eicar_object eicar_result)
            ''#439FE0'') = Some ''connection refused''
   \<and> fst (processScan webhook_down_world eicar_object initial_state)
       = Return (Some ''connection refused'')
   \<and> fst (processScan (webhook_down_world\<lparr>webhook_reply := \<lambda>u d. None\<rparr>) eicar_object
         initial_state) = Return None
   \<and> snd (processScan webhook_down_world eicar_object initial_state) =
       emit (Log ErrorLevel ''failed to invoke webhook'' [(''err'', FError ''connection refused'')])
         (snd (processScan (webhook_down_world\<lparr>webhook_reply := \<lambda>u d. None\<rparr>) eicar_object
            initial_state))"
proof -
  have posted: "(''https://hooks.example/services/T0'', ''application/json'',
      webhook_body (positive_title eicar_object) (positive_text eicar_object eicar_result)
        ''#439FE0'')
     \<in> set (posts (since initial_state
           (snd (processScan webhook_down_world eicar_object initial_state))))"
    by (simp add: webhook_down_run obs_simps)
  have failed: "webhook_reply webhook_down_world ''https://hooks.example/services/T0''
         (webhook_body (positive_title eicar_object) (positive_text eicar_object eicar_result)
            ''#439FE0'') = Some ''connection refused''"
    by (simp add: webhook_down_world_def)
  from webhook_failure_is_only_logged [OF run_splits posted failed run_splits] posted failed
  show ?thesis by simp
qed

subsection \<open>Webhook not configured\<close>

text \<open>
  C5. If the webhook URL is unset (the empty string), the notifier makes no outbound HTTP
  call and returns success at once: \<^verbatim>\<open>sendWebhook\<close> returns \<^verbatim>\<open>nil\<close> and the trace gains
  nothing but the mark of the call itself. So no run of the pipeline, whatever its
  outcome, makes an HTTP request.
\<close>

theorem unset_webhook_sends_nothing:
  assumes unset: "slackWebhookURL w = []"
  shows "sendWebhook w title text color s = (None, emit (Call_sendWebhook title text color) s)
         \<and> posts (since s (snd (sendWebhook w title text color s))) = []
         \<and> posts (since s (snd (processScan w obj s))) = []"
proof -
  have one: "sendWebhook w title text color s = (None, emit (Call_sendWebhook title text color) s)"
    using unset by (simp add: sendWebhook_def Let_def)
  have two: "posts (since s (snd (sendWebhook w title text color s))) = []"
    by (simp add: one emit_def since_def obs_simps)
  obtain g s1 where g: "getTempFilename w (path_Ext (Key obj)) s = (g, s1)"
    by (cases "getTempFilename w (path_Ext (Key obj)) s")
  from getTempFilename_events [OF g]
  obtain evs where evs: "trace s1 = trace s @ evs" "posts evs = []"
    by (elim exE conjE)
  from g have three: "posts (since s (snd (processScan w obj s))) = []"
    by (cases rule: processScan_cases)
       (use unset evs in \<open>simp add: invoked_sendWebhook since_def obs_simps\<close>)+
  from one two three show ?thesis by simp
qed

theorem unset_webhook_sends_nothing_witness:
  "slackWebhookURL silent_world = []
   \<and> sendWebhook silent_world ''Error scanning `bkt/key1`'' ''boom'' ''danger'' initial_state =
       (None, emit (Call_sendWebhook ''Error scanning `bkt/key1`'' ''boom'' ''danger'')
                initial_state)
   \<and> posts (since initial_state (snd (processScan silent_world eicar_object initial_state))) = []
   \<and> notifications (since initial_state
         (snd (processScan silent_world eicar_object initial_state))) =
       [(positive_title eicar_object, positive_text eicar_object eicar_result, ''#439FE0'')]"
proof -
  have unset: "slackWebhookURL silent_world = []"
    by (simp add: silent_world_def)
  have "notifications (since initial_state
         (snd (processScan silent_world eicar_object initial_state))) =
       [(positive_title eicar_object, positive_text eicar_object eicar_result, ''#439FE0'')]"
    by (simp add: silent_run obs_simps)
  with unset_webhook_sends_nothing [OF unset, of "''Error scanning `bkt/key1`''" "''boom''"
      "''danger''" initial_state eicar_object] unset
  show ?thesis by simp
qed

subsection \<open>The handler\<close>

text \<open>
  C7. A request to \<^verbatim>\<open>POST /v1/scanObject.async\<close> whose \<^verbatim>\<open>Content-Type\<close> does not begin with
  \<^verbatim>\<open>application/json\<close>, or whose body \<^verbatim>\<open>json.Unmarshal\<close> rejects, or whose object type is
  not 0, is answered with status 400 and starts no pipeline task.
\<close>

theorem bad_request_starts_nothing:
  assumes "\<not> prefix applicationJSON (Peek req contentType)
           \<or> (\<exists>err. json_Unmarshal w (PostBody req) = Inl err)
           \<or> (\<exists>data. json_Unmarshal w (PostBody req) = Inr data \<and> Type data \<noteq> 0)"
  shows "StatusCode (fst (scanObject_async w req)) = 400
         \<and> snd (scanObject_async w req) = None
         \<and> snd (serve w req s) = None"
proof -
  from assms have "StatusCode (fst (scanObject_async w req)) = 400
         \<and> snd (scanObject_async w req) = None"
    by (auto simp: scanObject_async_def Let_def)
  then show ?thesis
    by (cases "scanObject_async w req") (simp add: serve_def)
qed

theorem bad_request_starts_nothing_witness:
  "\<not> prefix applicationJSON (Peek plain_request contentType)
   \<and> json_Unmarshal example_world (PostBody (json_request truncated_body))
       = Inl ''unexpected end of JSON input''
   \<and> json_Unmarshal example_world (PostBody (json_request type1_body))
       = Inr (zero_object\<lparr>Type := 1\<rparr>)
   \<and> Type (zero_object\<lparr>Type := 1\<rparr>) \<noteq> 0
   \<and> StatusCode (fst (scanObject_async example_world plain_request)) = 400
   \<and> snd (serve example_world plain_request initial_state) = None
   \<and> StatusCode (fst (scanObject_async example_world (json_request truncated_body))) = 400
   \<and> snd (serve example_world (json_request truncated_body) initial_state) = None
   \<and> StatusCode (fst (scanObject_async example_world (json_request type1_body))) = 400
   \<and> snd (serve example_world (json_request type1_body) initial_state) = None"
proof -
  have a: "\<not> prefix applicationJSON (Peek plain_request contentType)"
    by (simp add: plain_request_def Peek_def contentType_def applicationJSON_def)
  have b: "json_Unmarshal example_world (PostBody (json_request truncated_body))
      = Inl ''unexpected end of JSON input''"
    by (simp add: example_world_def json_request_def example_Unmarshal_simps)
  have c: "json_Unmarshal example_world (PostBody (json_request type1_body))
       = Inr (zero_object\<lparr>Type := 1\<rparr>)"
    by (simp add: example_world_def json_request_def example_Unmarshal_simps)
  have d: "Type (zero_object\<lparr>Type := 1\<rparr>) \<noteq> 0"
    by simp
  from a have a': "\<not> prefix applicationJSON (Peek plain_request contentType)
           \<or> (\<exists>err. json_Unmarshal example_world (PostBody plain_request) = Inl err)
           \<or> (\<exists>data. json_Unmarshal example_world (PostBody plain_request) = Inr data
                 \<and> Type data \<noteq> 0)"
    by simp
  from b have b': "\<not> prefix applicationJSON (Peek (json_request truncated_body) contentType)
           \<or> (\<exists>err. json_Unmarshal example_world (PostBody (json_request truncated_body))
                 = Inl err)
           \<or> (\<exists>data. json_Unmarshal example_world (PostBody (json_request truncated_body))
                 = Inr data \<and> Type data \<noteq> 0)"
    by simp
  from c d have c': "\<not> prefix applicationJSON (Peek (json_request type1_body) contentType)
           \<or> (\<exists>err. json_Unmarshal example_world (PostBody (json_request type1_body))
                 = Inl err)
           \<or> (\<exists>data. json_Unmarshal example_world (PostBody (json_request type1_body))
                 = Inr data \<and> Type data \<noteq> 0)"
    by simp
  from bad_request_starts_nothing [OF a', of initial_state]
    bad_request_starts_nothing [OF b', of initial_state]
    bad_request_starts_nothing [OF c', of initial_state] a b c d
  show ?thesis by simp
qed

text \<open>
  C10. A request that is accepted (JSON content type, body parsed, type 0) is answered with
  HTTP status 202, while the \<^verbatim>\<open>code\<close> field of the JSON body is 201: the body's code is not
  the status code. The task is started with the object parsed.
\<close>

theorem accepted_status_202_body_code_201:
  assumes "prefix applicationJSON (Peek req contentType)"
    and "json_Unmarshal w (PostBody req) = Inr data"
    and "Type data = 0"
  shows \<open>StatusCode (fst (scanObject_async w req)) = 202
         \<and> RespBody (fst (scanObject_async w req)) =
             ''{"code":201,"message":"Accepted (processing asynchronously)"}''
         \<and> sublist ''"code":201'' (RespBody (fst (scanObject_async w req)))
         \<and> \<not> sublist ''"code":202'' (RespBody (fst (scanObject_async w req)))
         \<and> snd (scanObject_async w req) = Some data\<close>
  using assms by (simp add: scanObject_async_def Let_def sublist_code)

theorem accepted_status_202_body_code_201_witness:
  \<open>prefix applicationJSON (Peek (json_request eicar_body) contentType)
   \<and> json_Unmarshal example_world (PostBody (json_request eicar_body)) = Inr eicar_object
   \<and> Type eicar_object = 0
   \<and> StatusCode (fst (scanObject_async example_world (json_request eicar_body))) = 202
   \<and> RespBody (fst (scanObject_async example_world (json_request eicar_body))) =
             ''{"code":201,"message":"Accepted (processing asynchronously)"}''
   \<and> snd (scanObject_async example_world (json_request eicar_body)) = Some eicar_object\<close>
proof -
  have a: "prefix applicationJSON (Peek (json_request eicar_body) contentType)"
    by (simp add: json_request_def Peek_def contentType_def applicationJSON_def)
  have b: "json_Unmarshal example_world (PostBody (json_request eicar_body)) = Inr eicar_object"
    by (simp add: example_world_def json_request_def example_Unmarshal_simps)
  have c: "Type eicar_object = 0"
    by (simp add: eicar_object_def)
  from accepted_status_202_body_code_201 [OF a b c] a b c show ?thesis by simp
qed

subsection \<open>The temp-file allocator\<close>

text \<open>
  C8. For every call of the allocator with an extension \<open>ext\<close>. Write \<open>d\<close> for the scratch
  directory the call checks and \<open>d'\<close> for the fresh name it would give a new one.
  \<^item> On success the path returned is the scratch directory (as named when the call
    returns), a slash, the token drawn last and \<open>ext\<close>; that directory exists.
  \<^item> If \<open>d\<close> exists and is a directory, it is kept and nothing is created.
  \<^item> If \<open>d\<close> is missing or is not a directory (or cannot be examined), the directory is
    created anew under the name \<open>d'\<close>, by the one \<^verbatim>\<open>os.Mkdir\<close> of the call, before the path
    is returned; the call succeeds exactly when that creation does, and returns an error
    exactly when it fails.
  \<^item> When the allocator returns an error, \<open>scan\<close> returns that error in the state the
    allocator left, and the whole run creates no file, calls the store for nothing and
    does not invoke the scan engine.
\<close>

theorem getTempFilename_allocates:
  fixes w s ext
  defines "d \<equiv> tmpDir (name_dir w s)"
    and "d' \<equiv> os_TempDir w @ ''/bitscan_'' @ uniuri w (drawn (name_dir w s))"
  assumes alloc: "getTempFilename w ext s = (r, s')"
  shows "(\<forall>p. r = Inr p \<longrightarrow>
            p = tmpDir s' @ ''/'' @ uniuri w (drawn s' - 1) @ ext
            \<and> drawn s < drawn s' \<and> fs s' (tmpDir s') = Some Directory)
       \<and> (stat_err w d = None \<and> fs s d = Some Directory \<longrightarrow>
            (\<exists>p. r = Inr p) \<and> tmpDir s' = d \<and> mkdirs (since s s') = [] \<and> fs s' = fs s)
       \<and> (stat_err w d \<noteq> None \<or> fs s d \<noteq> Some Directory \<longrightarrow>
            tmpDir s' = d' \<and> mkdirs (since s s') = [(d', folderFileMode)]
            \<and> ((\<exists>p. r = Inr p) \<longleftrightarrow> mkdir_err w d' = None \<and> fs s d' = None)
            \<and> ((\<exists>e. r = Inl e) \<longleftrightarrow> mkdir_err w d' \<noteq> None \<or> fs s d' \<noteq> None)
            \<and> (\<forall>p. r = Inr p \<longrightarrow> fs s' = (fs s)(d' \<mapsto> Directory)))
       \<and> (\<forall>e obj. r = Inl e \<and> ext = path_Ext (Key obj) \<longrightarrow>
            scan w obj s = (Return (Inl e), s')
            \<and> creations (since s (snd (processScan w obj s))) = []
            \<and> store_calls (since s (snd (processScan w obj s))) = []
            \<and> engine_calls (since s (snd (processScan w obj s))) = [])"
proof -
  have aborts: "scan w obj s = (Return (Inl e), s')
            \<and> creations (since s (snd (processScan w obj s))) = []
            \<and> store_calls (since s (snd (processScan w obj s))) = []
            \<and> engine_calls (since s (snd (processScan w obj s))) = []"
    if "r = Inl e" and "ext = path_Ext (Key obj)" for e obj
  proof -
    from alloc that have g: "getTempFilename w (path_Ext (Key obj)) s = (Inl e, s')"
      by simp
    from getTempFilename_events [OF g]
    obtain evs where evs: "trace s' = trace s @ evs" "creations evs = []"
      "store_calls evs = []" "engine_calls evs = []"
      by (elim exE conjE)
    from g have "scan w obj s = (Return (Inl e), s')"
      by (simp add: scan_def)
    moreover from g have "processScan w obj s =
        invoked (sendWebhook w (error_title obj) (error_text e) ''danger'' s')"
      by (cases rule: processScan_cases) simp_all
    ultimately show ?thesis using evs
      by (simp add: invoked_sendWebhook since_def obs_simps split: option.splits)
  qed
  show ?thesis
  proof (cases rule: getTempFilename_cases [of w s ext])
    case kept
    with alloc aborts show ?thesis
      unfolding d_def d'_def
      by (auto simp: since_def obs_simps name_dir_fs name_dir_drawn)
  next
    case remade
    with alloc aborts show ?thesis
      unfolding d_def d'_def
      by (auto simp: since_def obs_simps name_dir_fs name_dir_drawn)
  next
    case (not_made e)
    with alloc aborts show ?thesis
      unfolding d_def d'_def
      by (auto simp: since_def obs_simps name_dir_fs name_dir_drawn)
  qed
qed

theorem getTempFilename_allocates_witness:
  "fs initial_state (tmpDir (name_dir example_world initial_state)) \<noteq> Some Directory
   \<and> fst (getTempFilename example_world ''.bin'' initial_state) =
       Inr ''/tmp/bitscan_bbbbbbbbbbbbbbbb/cccccccccccccccc.bin''
   \<and> tmpDir (snd (getTempFilename example_world ''.bin'' initial_state)) =
       ''/tmp/bitscan_bbbbbbbbbbbbbbbb''
   \<and> mkdirs (since initial_state (snd (getTempFilename example_world ''.bin'' initial_state))) =
       [(''/tmp/bitscan_bbbbbbbbbbbbbbbb'', folderFileMode)]
   \<and> fs (snd (getTempFilename example_world ''.bin'' initial_state))
         ''/tmp/bitscan_bbbbbbbbbbbbbbbb'' = Some Directory
   \<and> stat_err example_world (tmpDir (name_dir example_world warm_state)) = None
   \<and> fs warm_state (tmpDir (name_dir example_world warm_state)) = Some Directory
   \<and> tmpDir (snd (getTempFilename example_world ''.bin'' warm_state)) =
       ''/tmp/bitscan_bbbbbbbbbbbbbbbb''
   \<and> mkdirs (since warm_state (snd (getTempFilename example_world ''.bin'' warm_state))) = []
   \<and> fst (getTempFilename mkdir_failing_world ''.bin'' initial_state) =
       Inl ''permission denied''
   \<and> path_Ext (Key eicar_object) = ''.bin''
   \<and> scan mkdir_failing_world eicar_object initial_state =
       (Return (Inl ''permission denied''),
        snd (getTempFilename mkdir_failing_world ''.bin'' initial_state))
   \<and> creations (since initial_state
         (snd (processScan mkdir_failing_world eicar_object initial_state))) = []
   \<and> store_calls (since initial_state
         (snd (processScan mkdir_failing_world eicar_object initial_state))) = []
   \<and> engine_calls (since initial_state
         (snd (processScan mkdir_failing_world eicar_object initial_state))) = []"
proof -
  have missing: "fs initial_state (tmpDir (name_dir example_world initial_state))
      \<noteq> Some Directory"
    by (simp add: name_dir_tmpDir initial_state_def example_world_def)
  have path: "fst (getTempFilename example_world ''.bin'' initial_state) =
       Inr ''/tmp/bitscan_bbbbbbbbbbbbbbbb/cccccccccccccccc.bin''"
    by (simp add: alloc_defs example_world_def initial_state_def)
  have present: "stat_err example_world (tmpDir (name_dir example_world warm_state)) = None"
    "fs warm_state (tmpDir (name_dir example_world warm_state)) = Some Directory"
    by (simp_all add: name_dir_tmpDir warm_state_def example_world_def)
  have failing: "fst (getTempFilename mkdir_failing_world ''.bin'' initial_state) =
       Inl ''permission denied''"
    by (simp add: alloc_defs mkdir_failing_world_def example_world_def initial_state_def)
  have ext: "path_Ext (Key eicar_object) = ''.bin''"
    by (simp add: path_Ext_def eicar_object_def)
  have names: "os_TempDir example_world @ ''/bitscan_''
        @ uniuri example_world (drawn (name_dir example_world initial_state))
      = ''/tmp/bitscan_bbbbbbbbbbbbbbbb''"
    "tmpDir (name_dir example_world warm_state) = ''/tmp/bitscan_bbbbbbbbbbbbbbbb''"
    by (simp_all add: name_dir_drawn name_dir_tmpDir example_world_def initial_state_def
        warm_state_def)
  note fresh = getTempFilename_allocates [where w = example_world and s = initial_state
      and ext = "''.bin''", OF split_alloc]
  note warm = getTempFilename_allocates [where w = example_world and s = warm_state
      and ext = "''.bin''", OF split_alloc]
  note failed = getTempFilename_allocates [where w = mkdir_failing_world and s = initial_state
      and ext = "''.bin''", OF split_alloc]
  from fresh missing path names
  have a: "tmpDir (snd (getTempFilename example_world ''.bin'' initial_state)) =
       ''/tmp/bitscan_bbbbbbbbbbbbbbbb''
   \<and> mkdirs (since initial_state (snd (getTempFilename example_world ''.bin'' initial_state))) =
       [(''/tmp/bitscan_bbbbbbbbbbbbbbbb'', folderFileMode)]
   \<and> fs (snd (getTempFilename example_world ''.bin'' initial_state))
         ''/tmp/bitscan_bbbbbbbbbbbbbbbb'' = Some Directory"
    by simp
  from warm present names
  have b: "tmpDir (snd (getTempFilename example_world ''.bin'' warm_state)) =
       ''/tmp/bitscan_bbbbbbbbbbbbbbbb''
   \<and> mkdirs (since warm_state (snd (getTempFilename example_world ''.bin'' warm_state))) = []"
    by simp
  note aborted = failed [THEN conjunct2, THEN conjunct2, THEN conjunct2, rule_format,
      of "''permission denied''" eicar_object]
  from aborted failing ext
  have c: "scan mkdir_failing_world eicar_object initial_state =
       (Return (Inl ''permission denied''),
        snd (getTempFilename mkdir_failing_world ''.bin'' initial_state))
   \<and> creations (since initial_state
         (snd (processScan mkdir_failing_world eicar_object initial_state))) = []
   \<and> store_calls (since initial_state
         (snd (processScan mkdir_failing_world eicar_object initial_state))) = []
   \<and> engine_calls (since initial_state
         (snd (processScan mkdir_failing_world eicar_object initial_state))) = []"
    by simp
  from missing path present failing ext a b c show ?thesis by simp
qed

subsection \<open>Retention of the temp file\<close>

text \<open>
  C9. No run of the pipeline, whatever its verdict, removes a file: every entry the file
  system had before the run is there after it, unchanged, and every file the run has
  created (its \<^verbatim>\<open>os.Create\<close> succeeded) is a regular file of the file system when the run
  ends.
\<close>

theorem temp_file_is_retained:
  assumes run: "processScan w obj s = (r, s')"
  shows "fs s \<subseteq>\<^sub>m fs s'
         \<and> (\<forall>p \<in> set (creations (since s s')).
               create_err w p = None \<and> fs s p \<noteq> Some Directory \<longrightarrow> fs s' p = Some Regular)"
proof -
  obtain g s1 where g: "getTempFilename w (path_Ext (Key obj)) s = (g, s1)"
    by (cases "getTempFilename w (path_Ext (Key obj)) s")
  from getTempFilename_events [OF g]
  obtain evs where evs: "trace s1 = trace s @ evs" "creations evs = []"
    by (elim exE conjE)
  from getTempFilename_fs [OF g]
  have le: "fs s \<subseteq>\<^sub>m fs s1"
    and dir: "\<And>p. g = Inr p \<Longrightarrow> fs s1 p = Some Directory \<Longrightarrow> fs s p = Some Directory"
    by blast+
  note defs = invoked_sendWebhook since_def obs_simps
  from g show ?thesis
  proof (cases rule: processScan_cases)
    case (no_path e)
    with run evs le show ?thesis by (clarsimp simp: defs split: option.splits if_splits)
  next
    case (no_file p e)
    with run evs le dir [of p] show ?thesis by (clarsimp simp: defs split: option.splits if_splits)
  next
    case (nil_id p)
    with run evs map_le_Regular [OF le, of p] show ?thesis by (clarsimp simp: defs split: option.splits if_splits)
  next
    case (no_fetch p a fid e)
    with run evs map_le_Regular [OF le, of p] show ?thesis by (clarsimp simp: defs split: option.splits if_splits)
  next
    case (no_scan p a fid e)
    with run evs map_le_Regular [OF le, of p] show ?thesis by (clarsimp simp: defs split: option.splits if_splits)
  next
    case (nil_result p a fid)
    with run evs map_le_Regular [OF le, of p] show ?thesis by (clarsimp simp: defs split: option.splits if_splits)
  next
    case (engine_error p a fid b res e)
    with run evs map_le_Regular [OF le, of p] show ?thesis by (clarsimp simp: defs split: option.splits if_splits)
  next
    case (positive p a fid b res)
    with run evs map_le_Regular [OF le, of p] show ?thesis by (clarsimp simp: defs split: option.splits if_splits)
  next
    case (clean p a fid b res)
    with run evs map_le_Regular [OF le, of p] show ?thesis by (clarsimp simp: defs split: option.splits if_splits)
  qed
qed

theorem temp_file_is_retained_witness:
  "''/tmp/bitscan_bbbbbbbbbbbbbbbb/cccccccccccccccc.bin'' \<in> set (creations
      (since initial_state (snd (processScan example_world eicar_object initial_state))))
   \<and> create_err example_world ''/tmp/bitscan_bbbbbbbbbbbbbbbb/cccccccccccccccc.bin'' = None
   \<and> fs initial_state ''/tmp/bitscan_bbbbbbbbbbbbbbbb/cccccccccccccccc.bin'' \<noteq> Some Directory
   \<and> fs (snd (processScan example_world eicar_object initial_state))
         ''/tmp/bitscan_bbbbbbbbbbbbbbbb/cccccccccccccccc.bin'' = Some Regular
   \<and> fs initial_state \<subseteq>\<^sub>m fs (snd (processScan example_world eicar_object initial_state))"
proof -
  have created: "''/tmp/bitscan_bbbbbbbbbbbbbbbb/cccccccccccccccc.bin'' \<in> set (creations
      (since initial_state (snd (processScan example_world eicar_object initial_state))))"
    by (simp add: positive_run obs_simps)
  have ok: "create_err example_world ''/tmp/bitscan_bbbbbbbbbbbbbbbb/cccccccccccccccc.bin'' = None"
    by (simp add: example_world_def)
  have free: "fs initial_state ''/tmp/bitscan_bbbbbbbbbbbbbbbb/cccccccccccccccc.bin''
      \<noteq> Some Directory"
    by (simp add: initial_state_def)
  from temp_file_is_retained [where w = example_world and obj = eicar_object
      and s = initial_state, OF run_splits]
  have "fs initial_state \<subseteq>\<^sub>m fs (snd (processScan example_world eicar_object initial_state))"
    and "\<forall>p \<in> set (creations (since initial_state
             (snd (processScan example_world eicar_object initial_state)))).
           create_err example_world p = None \<and> fs initial_state p \<noteq> Some Directory \<longrightarrow>
           fs (snd (processScan example_world eicar_object initial_state)) p = Some Regular"
    by blast+
  with created ok free show ?thesis by blast
qed

subsection \<open>A request without a backend file identifier\<close>

text \<open>
  C1. The claim: for every request the handler accepts, the backend file identifier is
  present before a fetch is attempted; a request without one is rejected, or the pipeline
  never dereferences the missing identifier. The code at the request body \<^verbatim>\<open>{"type":0}\<close>,
  sent as JSON: the handler checks the type only and accepts with status 202; the pipeline
  allocates the path, creates the file and then dereferences the nil \<^verbatim>\<open>BackendFileID\<close>
  for the call of the store, which is a panic. The lemma \<open>nil_id_panics\<close> says the same
  of every object without an identifier whose temp file could be created.
\<close>

theorem missing_backend_file_id_panics:
  \<open>prefix applicationJSON (Peek (json_request no_id_body) contentType)
   \<and> json_Unmarshal example_world (PostBody (json_request no_id_body)) = Inr zero_object
   \<and> Type zero_object = 0
   \<and> BackendFileID zero_object = NilPtr
   \<and> fst (serve example_world (json_request no_id_body) initial_state) =
       \<lparr>StatusCode = 202, RespContentType = ''application/json; charset=utf-8'',
        RespBody = ''{"code":201,"message":"Accepted (processing asynchronously)"}''\<rparr>
   \<and> map_option fst (snd (serve example_world (json_request no_id_body) initial_state)) =
       Some (Panic nil_dereference)
   \<and> map_option (\<lambda>run. trace (snd run))
         (snd (serve example_world (json_request no_id_body) initial_state)) =
       Some [Os_Stat ''/tmp/bitscan_aaaaaaaaaaaaaaaa'',
             Os_Mkdir ''/tmp/bitscan_bbbbbbbbbbbbbbbb'' folderFileMode,
             Os_Create ''/tmp/bitscan_bbbbbbbbbbbbbbbb/cccccccccccccccc'',
             File_Chmod ''/tmp/bitscan_bbbbbbbbbbbbbbbb/cccccccccccccccc'' objectFileMode]\<close>
proof -
  have a: "prefix applicationJSON (Peek (json_request no_id_body) contentType)"
    by (simp add: json_request_def Peek_def contentType_def applicationJSON_def)
  have b: "json_Unmarshal example_world (PostBody (json_request no_id_body)) = Inr zero_object"
    by (simp add: example_world_def json_request_def example_Unmarshal_simps)
  have c: "Type zero_object = 0" "BackendFileID zero_object = NilPtr"
    by (simp_all add: zero_object_def)
  from a b c show ?thesis
    by (simp add: serve_def scanObject_async_def Let_def no_id_run)
qed

subsection \<open>Detection\<close>

text \<open>
  C2. The claim: when the engine reports \<^verbatim>\<open>Eicar-Test-Signature\<close> on the object with bucket
  key \<^verbatim>\<open>bkt/key1\<close> and MD5 \<^verbatim>\<open>44d88612fea8a8f36de82e1278abb02f\<close>, exactly one notification is
  sent, with the bucket key, the MD5 hash and the signature, saying that the object has not
  been removed; nothing is deleted; the event is logged at info level. The code on that
  run: one notification, with the bucket key, the signature and the sentence about
  storage, but without the MD5 hash. \<^verbatim>\<open>MD5Hash\<close> is a \<^verbatim>\<open>*string\<close> and is passed to \<^verbatim>\<open>%s\<close>
  as the pointer, so the text holds \<^verbatim>\<open>%!s(*string=0xc00001c030)\<close> where the hash was meant
  (\<open>positive_text_ignores_hash\<close>: the text does not depend on the hash at all). What does
  hold of every detection is \<open>detection_notifies_once\<close> and \<open>positive_text_mentions\<close>.
\<close>

theorem positive_notification_omits_md5:
  "BucketKey eicar_object = ''bkt/key1''
   \<and> MD5Hash eicar_object = Ptr 0xc00001c030 ''44d88612fea8a8f36de82e1278abb02f''
   \<and> slackWebhookURL example_world \<noteq> []
   \<and> clamscan_reply example_world ''/tmp/bitscan_bbbbbbbbbbbbbbbb/cccccccccccccccc.bin'' =
       Inr (Ptr 0xc00009a000 eicar_result)
   \<and> Found eicar_result \<and> Virus eicar_result = ''Eicar-Test-Signature''
   \<and> Error eicar_result = None
   \<and> notifications (since initial_state
         (snd (processScan example_world eicar_object initial_state))) =
       [(''Positive file found: `bkt/key1`'',
         ''`bkt/key1` (`%!s(*string=0xc00001c030)`) returned positive during scan ''
         @ ''with virus `Eicar-Test-Signature`.'' @ [CHR 0x0A, CHR 0x0A]
         @ ''It has not been deleted from storage backend.'',
         ''#439FE0'')]
   \<and> \<not> sublist ''44d88612fea8a8f36de82e1278abb02f''
         (''`bkt/key1` (`%!s(*string=0xc00001c030)`) returned positive during scan ''
          @ ''with virus `Eicar-Test-Signature`.'' @ [CHR 0x0A, CHR 0x0A]
          @ ''It has not been deleted from storage backend.'')
   \<and> \<not> sublist ''44d88612fea8a8f36de82e1278abb02f'' ''Positive file found: `bkt/key1`''"
proof -
  have msg: "positive_text eicar_object eicar_result =
         ''`bkt/key1` (`%!s(*string=0xc00001c030)`) returned positive during scan ''
         @ ''with virus `Eicar-Test-Signature`.'' @ [CHR 0x0A, CHR 0x0A]
         @ ''It has not been deleted from storage backend.''"
    by (simp add: positive_text_def sprintf_s_ptr_def hex.simps hexdigit_def eicar_object_def
        eicar_result_def)
  have title: "positive_title eicar_object = ''Positive file found: `bkt/key1`''"
    by (simp add: positive_title_def eicar_object_def)
  have absent: "\<not> sublist ''44d88612fea8a8f36de82e1278abb02f''
         (''`bkt/key1` (`%!s(*string=0xc00001c030)`) returned positive during scan ''
          @ ''with virus `Eicar-Test-Signature`.'' @ [CHR 0x0A, CHR 0x0A]
          @ ''It has not been deleted from storage backend.'')"
    "\<not> sublist ''44d88612fea8a8f36de82e1278abb02f'' ''Positive file found: `bkt/key1`''"
    by (simp_all add: sublist_code)
  have facts: "BucketKey eicar_object = ''bkt/key1''"
    "MD5Hash eicar_object = Ptr 0xc00001c030 ''44d88612fea8a8f36de82e1278abb02f''"
    "slackWebhookURL example_world \<noteq> []"
    "clamscan_reply example_world ''/tmp/bitscan_bbbbbbbbbbbbbbbb/cccccccccccccccc.bin'' =
       Inr (Ptr 0xc00009a000 eicar_result)"
    "Found eicar_result" "Virus eicar_result = ''Eicar-Test-Signature''"
    "Error eicar_result = None"
    by (simp_all add: eicar_object_def example_world_def eicar_result_def)
  have "notifications (since initial_state
         (snd (processScan example_world eicar_object initial_state))) =
       [(positive_title eicar_object, positive_text eicar_object eicar_result, ''#439FE0'')]"
    by (simp add: positive_run obs_simps)
  with msg title absent facts show ?thesis by simp
qed

end
